theory Spec2Isabelle
  imports Complex_Main "HOL-Library.Log_Nat"
begin

section \<open>Values, exceptions and the token file\<close>

text \<open>
  JSON values as Python holds them after \<^verbatim>\<open>json.load\<close> or \<^verbatim>\<open>response.json()\<close>.
  A number is a Python \<^verbatim>\<open>int\<close> (unbounded) or a \<^verbatim>\<open>float\<close>, a double held as the rational it
  denotes; the infinities and NaN are not represented. A nested object is an association
  list; the token record and a top-level response are maps from keys to values.
\<close>

datatype json =
    JNull
  | JBool bool
  | JInt int
  | JFloat rat
  | JStr string
  | JArr "json list"
  | JObj "(string \<times> json) list"

type_synonym dict = "string \<rightharpoonup> json"

text \<open>Python truthiness (\<^verbatim>\<open>if v:\<close>, \<^verbatim>\<open>not v\<close>, \<^verbatim>\<open>a or b\<close>).\<close>

fun truthy :: "json \<Rightarrow> bool" where
  "truthy JNull = False"
| "truthy (JBool b) = b"
| "truthy (JInt i) = (i \<noteq> 0)"
| "truthy (JFloat r) = (r \<noteq> 0)"
| "truthy (JStr s) = (s \<noteq> [])"
| "truthy (JArr xs) = (xs \<noteq> [])"
| "truthy (JObj kvs) = (kvs \<noteq> [])"

text \<open>\<^verbatim>\<open>d.get(k)\<close>: the value, or \<^verbatim>\<open>None\<close> when the key is missing.\<close>

definition dget :: "dict \<Rightarrow> string \<Rightarrow> json" where
  "dget d k = (case d k of None \<Rightarrow> JNull | Some v \<Rightarrow> v)"

text \<open>\<^verbatim>\<open>os.getenv(k)\<close> followed by a truth test: unset and empty are both falsy.\<close>

definition env_truthy :: "(string \<rightharpoonup> string) \<Rightarrow> string \<Rightarrow> string option" where
  "env_truthy env k = (case env k of None \<Rightarrow> None | Some s \<Rightarrow> if s = [] then None else Some s)"

datatype exn_class =
    JSONDecodeError
  | IOError
  | UnicodeDecodeError
  | TypeError
  | AttributeError
  | ValueError
  | RuntimeError
  | OverflowError
  | RequestException
  | Timeout
  | OtherException

text \<open>
  An exception: its class and \<^verbatim>\<open>str(e)\<close>. \<open>HTTPError m body\<close> is the
  \<^verbatim>\<open>requests.exceptions.HTTPError\<close> of \<^verbatim>\<open>raise_for_status()\<close>, which carries the response:
  \<open>body\<close> is what \<^verbatim>\<open>e.response.json()\<close> returns, or nothing when that call raises.
\<close>

datatype exn = Exn exn_class string | HTTPError string "json option"

fun exn_class_of :: "exn \<Rightarrow> exn_class" where
  "exn_class_of (Exn c m) = c"
| "exn_class_of (HTTPError m body) = RequestException"

fun exn_str :: "exn \<Rightarrow> string" where
  "exn_str (Exn c m) = m"
| "exn_str (HTTPError m body) = m"

type_synonym 'a res = "exn + 'a"

text \<open>
  The handler \<^verbatim>\<open>except (json.JSONDecodeError, IOError)\<close>. \<^verbatim>\<open>requests\<close> derives its
  exceptions from \<^verbatim>\<open>IOError\<close>.
\<close>

fun is_decode_or_io :: "exn_class \<Rightarrow> bool" where
  "is_decode_or_io JSONDecodeError = True"
| "is_decode_or_io IOError = True"
| "is_decode_or_io RequestException = True"
| "is_decode_or_io Timeout = True"
| "is_decode_or_io _ = False"

text \<open>The handler \<^verbatim>\<open>except IOError\<close>.\<close>

fun is_io :: "exn_class \<Rightarrow> bool" where
  "is_io IOError = True"
| "is_io RequestException = True"
| "is_io Timeout = True"
| "is_io _ = False"

text \<open>The handler \<^verbatim>\<open>except requests.exceptions.RequestException\<close>.\<close>

fun is_request_exception :: "exn_class \<Rightarrow> bool" where
  "is_request_exception RequestException = True"
| "is_request_exception Timeout = True"
| "is_request_exception _ = False"

text \<open>
  The on-disk state of \<^verbatim>\<open>.instagram_tokens.json\<close>:
  \<^item> \<open>Absent\<close>: the path does not exist;
  \<^item> \<open>Unreadable\<close>: it exists and \<^verbatim>\<open>open\<close> fails (an \<^verbatim>\<open>IOError\<close>);
  \<^item> \<open>Undecodable\<close>: it opens, and its bytes are not text in the file encoding, so
    the \<^verbatim>\<open>read()\<close> inside \<^verbatim>\<open>json.load\<close> raises \<^verbatim>\<open>UnicodeDecodeError\<close>;
  \<^item> \<open>Malformed\<close>: it is text and not JSON (\<^verbatim>\<open>json.JSONDecodeError\<close>);
  \<^item> \<open>Holds d\<close>: it holds the JSON object \<open>d\<close>. The file is only ever written by
    \<^verbatim>\<open>json.dump\<close> of a dict, so parsed content is taken to be an object.
\<close>

datatype file_state =
    Absent
  | Unreadable
  | Undecodable
  | Malformed
  | Holds dict

fun file_exists :: "file_state \<Rightarrow> bool" where
  "file_exists Absent = False"
| "file_exists _ = True"

text \<open>\<^verbatim>\<open>with open(token_file, 'r') as f: return json.load(f)\<close> on an existing path.\<close>

fun read_json :: "file_state \<Rightarrow> dict res" where
  "read_json Absent = Inl (Exn IOError ''No such file or directory'')"
| "read_json Unreadable = Inl (Exn IOError ''Permission denied'')"
| "read_json Undecodable = Inl (Exn UnicodeDecodeError ''codec cannot decode byte'')"
| "read_json Malformed = Inl (Exn JSONDecodeError ''Expecting value'')"
| "read_json (Holds d) = Inr d"

text \<open>\<^verbatim>\<open>InstagramClient._load_tokens\<close> (client.py): \<^verbatim>\<open>except Exception\<close>.\<close>

definition client_load_tokens :: "file_state \<Rightarrow> dict res" where
  "client_load_tokens f =
     (if file_exists f then
        (case read_json f of
           Inr d \<Rightarrow> Inr d
         | Inl e \<Rightarrow> Inr Map.empty)
      else Inr Map.empty)"

text \<open>
  \<^verbatim>\<open>_load_tokens\<close> (instagram_mcp_server.py):
  \<^verbatim>\<open>except (json.JSONDecodeError, IOError)\<close>; any other exception leaves the function.
\<close>

definition load_tokens :: "file_state \<Rightarrow> dict res" where
  "load_tokens f =
     (if file_exists f then
        (case read_json f of
           Inr d \<Rightarrow> Inr d
         | Inl e \<Rightarrow> if is_decode_or_io (exn_class_of e) then Inr Map.empty else Inl e)
      else Inr Map.empty)"

section \<open>Expiry\<close>

definition saved_at_key :: string where
  "saved_at_key = ''access_token_saved_at''"

text \<open>
  Floating point. \<open>fl x\<close> is the double nearest to \<open>x\<close>, ties going to the even significand:
  53 significant bits, the exponent not below that of the subnormal numbers. \<open>ilog2 x\<close> is
  \<open>\<lfloor>log\<^sub>2 x\<rfloor>\<close> for a positive \<open>x\<close>.
\<close>

definition ilog2 :: "rat \<Rightarrow> int" where
  "ilog2 x = (let (p, q) = quotient_of x; e = bitlen p - bitlen q
              in if 2 powi e \<le> x then e else e - 1)"

definition round_half_even :: "rat \<Rightarrow> int" where
  "round_half_even r =
     (let f = \<lfloor>r\<rfloor>; d = r - of_int f
      in if d < 1 / 2 then f else if 1 / 2 < d then f + 1 else if even f then f else f + 1)"

definition fl :: "rat \<Rightarrow> rat" where
  "fl x = (if x = 0 then 0
           else (let e = max (ilog2 \<bar>x\<bar>) (- 1022); u = 2 powi (e - 52)
                 in of_int (round_half_even (x / u)) * u))"

text \<open>A rational that is a (finite) double.\<close>

definition is_double :: "rat \<Rightarrow> bool" where
  "is_double x = (fl x = x \<and> \<bar>x\<bar> < 2 ^ 1024)"

text \<open>
  Python numbers and their arithmetic: two \<^verbatim>\<open>int\<close>s add and subtract exactly; otherwise both
  operands become floats (\<^verbatim>\<open>OverflowError\<close> when an \<^verbatim>\<open>int\<close> is too large for a double) and the
  result is rounded. A bool is an \<^verbatim>\<open>int\<close>.
\<close>

datatype pynum = PInt int | PFloat rat

fun num_of :: "json \<Rightarrow> pynum option" where
  "num_of (JInt i) = Some (PInt i)"
| "num_of (JFloat r) = Some (PFloat r)"
| "num_of (JBool b) = Some (PInt (if b then 1 else 0))"
| "num_of _ = None"

fun num_val :: "pynum \<Rightarrow> rat" where
  "num_val (PInt i) = of_int i"
| "num_val (PFloat r) = r"

fun to_float :: "pynum \<Rightarrow> rat res" where
  "to_float (PFloat r) = Inr r"
| "to_float (PInt i) =
     (if \<bar>fl (of_int i)\<bar> < 2 ^ 1024 then Inr (fl (of_int i))
      else Inl (Exn OverflowError ''int too large to convert to float''))"

definition float_op :: "(rat \<Rightarrow> rat \<Rightarrow> rat) \<Rightarrow> pynum \<Rightarrow> pynum \<Rightarrow> pynum res" where
  "float_op f a b =
     (case to_float a of
        Inl e \<Rightarrow> Inl e
      | Inr x \<Rightarrow> (case to_float b of
                    Inl e \<Rightarrow> Inl e
                  | Inr y \<Rightarrow> Inr (PFloat (fl (f x y)))))"

fun num_add :: "pynum \<Rightarrow> pynum \<Rightarrow> pynum res" where
  "num_add (PInt i) (PInt j) = Inr (PInt (i + j))"
| "num_add a b = float_op (+) a b"

fun num_sub :: "pynum \<Rightarrow> pynum \<Rightarrow> pynum res" where
  "num_sub (PInt i) (PInt j) = Inr (PInt (i - j))"
| "num_sub a b = float_op (-) a b"

text \<open>
  \<^verbatim>\<open>saved_at + expires_in\<close> followed by a subtraction of a number: the sum when both are
  numeric; every other pair raises \<^verbatim>\<open>TypeError\<close>, at the addition or (two strings, two
  lists) at the subtraction.
\<close>

definition expiry_sum :: "json \<Rightarrow> json \<Rightarrow> pynum res" where
  "expiry_sum a b =
     (case (num_of a, num_of b) of
        (Some x, Some y) \<Rightarrow> num_add x y
      | _ \<Rightarrow> Inl (Exn TypeError ''unsupported operand type(s)''))"

text \<open>
  \<^verbatim>\<open>InstagramClient._is_token_expired\<close>; \<open>now\<close> is the reading of \<^verbatim>\<open>time.time()\<close>.
\<close>

definition client_is_token_expired :: "file_state \<Rightarrow> rat \<Rightarrow> bool res" where
  "client_is_token_expired f now =
     (case client_load_tokens f of
        Inl e \<Rightarrow> Inl e
      | Inr stored_tokens \<Rightarrow>
          (let expires_in = dget stored_tokens ''expires_in'';
               saved_at = dget stored_tokens saved_at_key
           in if \<not> truthy expires_in \<or> \<not> truthy saved_at then Inr False
              else (case expiry_sum saved_at expires_in of
                      Inl e \<Rightarrow> Inl e
                    | Inr expiry_time \<Rightarrow>
                        (case num_sub expiry_time (PInt 300) of
                           Inl e \<Rightarrow> Inl e
                         | Inr bound \<Rightarrow> Inr (now \<ge> num_val bound)))))"

text \<open>\<^verbatim>\<open>_is_token_expired\<close> (instagram_mcp_server.py).\<close>

definition is_token_expired :: "file_state \<Rightarrow> rat \<Rightarrow> bool res" where
  "is_token_expired f now =
     (case load_tokens f of
        Inl e \<Rightarrow> Inl e
      | Inr tokens \<Rightarrow>
          (if tokens saved_at_key = None \<or> tokens ''expires_in'' = None then Inr False
           else (case expiry_sum (dget tokens saved_at_key) (dget tokens ''expires_in'') of
                   Inl e \<Rightarrow> Inl e
                 | Inr s \<Rightarrow>
                     (case num_sub s (PFloat now) of
                        Inl e \<Rightarrow> Inl e
                      | Inr time_until_expiry \<Rightarrow> Inr (num_val time_until_expiry < 86400)))))"

section \<open>The process state and the token endpoint\<close>

text \<open>
  Requests sent to the platform, with the argument that identifies them: the code exchange
  (\<^verbatim>\<open>POST oauth/access_token\<close> with \<^verbatim>\<open>code\<close>), the token exchange
  (\<^verbatim>\<open>GET oauth/access_token\<close> with \<^verbatim>\<open>grant_type=fb_exchange_token\<close> and the credential
  passed as \<^verbatim>\<open>fb_exchange_token\<close>) and the page listing (\<^verbatim>\<open>GET me/accounts\<close> with the
  access token).
\<close>

datatype request =
    CodeExchange string
  | TokenExchange json
  | ListPages json

text \<open>
  What the functions read and change: the token file, the process environment and the
  requests sent so far. The platform is a parameter \<open>http\<close>: the decoded body of a successful
  response (a JSON object), or the exception raised by the request, by
  \<^verbatim>\<open>raise_for_status\<close> or by \<^verbatim>\<open>response.json()\<close>.
\<close>

record world =
  disk :: file_state
  env :: "string \<rightharpoonup> string"
  reqs :: "request list"

type_synonym platform = "request \<Rightarrow> dict res"

definition send :: "request \<Rightarrow> world \<Rightarrow> world" where
  "send r w = w\<lparr>reqs := reqs w @ [r]\<rparr>"

text \<open>Sequencing of steps that may raise: the first exception ends the sequence.\<close>

definition seq :: "'a res \<times> 's \<Rightarrow> ('a \<Rightarrow> 's \<Rightarrow> 'b res \<times> 's) \<Rightarrow> 'b res \<times> 's" where
  "seq m f = (case m of (Inl e, w) \<Rightarrow> (Inl e, w) | (Inr x, w) \<Rightarrow> f x w)"

text \<open>\<^verbatim>\<open>os.environ[k] = v\<close>: \<^verbatim>\<open>TypeError\<close> unless \<open>v\<close> is a string.\<close>

definition set_environ :: "string \<Rightarrow> json \<Rightarrow> world \<Rightarrow> unit res \<times> world" where
  "set_environ k v w =
     (case v of
        JStr s \<Rightarrow> (Inr (), w\<lparr>env := (env w)(k \<mapsto> s)\<rparr>)
      | _ \<Rightarrow> (Inl (Exn TypeError ''str expected''), w))"

text \<open>\<^verbatim>\<open>if k in tokens: os.environ[var] = tokens[k]\<close>.\<close>

definition mirror :: "dict \<Rightarrow> string \<Rightarrow> string \<Rightarrow> world \<Rightarrow> unit res \<times> world" where
  "mirror tokens k var w =
     (case tokens k of None \<Rightarrow> (Inr (), w) | Some v \<Rightarrow> set_environ var v w)"

text \<open>\<^verbatim>\<open>if d.get(k): os.environ[var] = d[k]\<close>.\<close>

definition mirror_truthy :: "dict \<Rightarrow> string \<Rightarrow> string \<Rightarrow> world \<Rightarrow> unit res \<times> world" where
  "mirror_truthy d k var w =
     (if truthy (dget d k) then set_environ var (dget d k) w else (Inr (), w))"

section \<open>Saving the token record\<close>

text \<open>
  \<^verbatim>\<open>_save_tokens\<close> (instagram_mcp_server.py). \<open>now\<close> is the reading of \<^verbatim>\<open>time.time()\<close>;
  \<open>write_ok\<close> tells whether opening the file for writing succeeds (an \<^verbatim>\<open>IOError\<close>
  otherwise, which leaves the file as it was). The handler is \<^verbatim>\<open>except IOError\<close>.
\<close>

definition merge_tokens :: "dict \<Rightarrow> dict \<Rightarrow> rat \<Rightarrow> dict" where
  "merge_tokens existing_tokens tokens now =
     (let e1 = existing_tokens ++ tokens;
          e2 = (case tokens ''access_token'' of
                  None \<Rightarrow> e1
                | Some a \<Rightarrow>
                    (let e3 = e1(''access_token'' \<mapsto> a, saved_at_key \<mapsto> JFloat now)
                     in case tokens ''expires_in'' of
                          None \<Rightarrow> e3
                        | Some x \<Rightarrow> e3(''expires_in'' \<mapsto> x)))
      in case tokens ''refresh_token'' of
           None \<Rightarrow> e2
         | Some r \<Rightarrow> e2(''refresh_token'' \<mapsto> r))"

definition swallow_io :: "unit res \<times> world \<Rightarrow> unit res \<times> world" where
  "swallow_io m =
     (case m of
        (Inl e, w) \<Rightarrow> (if is_io (exn_class_of e) then Inr () else Inl e, w)
      | (Inr u, w) \<Rightarrow> (Inr u, w))"

definition save_tokens :: "dict \<Rightarrow> rat \<Rightarrow> bool \<Rightarrow> world \<Rightarrow> unit res \<times> world" where
  "save_tokens tokens now write_ok w =
     swallow_io
       (case load_tokens (disk w) of
          Inl e \<Rightarrow> (Inl e, w)
        | Inr existing_tokens \<Rightarrow>
            (if \<not> write_ok then (Inl (Exn IOError ''cannot open for writing''), w)
             else
               seq (mirror tokens ''access_token'' ''INSTAGRAM_OAUTH_ACCESS_TOKEN''
                      (w\<lparr>disk := Holds (merge_tokens existing_tokens tokens now)\<rparr>))
                 (\<lambda>_ w1. seq (mirror tokens ''refresh_token'' ''INSTAGRAM_OAUTH_REFRESH_TOKEN'' w1)
                 (\<lambda>_ w2. seq (mirror tokens ''page_access_token'' ''INSTAGRAM_PAGE_ACCESS_TOKEN'' w2)
                 (\<lambda>_ w3. mirror tokens ''facebook_page_id'' ''FACEBOOK_PAGE_ID'' w3)))))"

text \<open>
  \<^verbatim>\<open>InstagramClient._save_tokens\<close> (client.py): no handler, and the timestamp is written
  on every save.
\<close>

definition client_save_tokens :: "dict \<Rightarrow> rat \<Rightarrow> bool \<Rightarrow> world \<Rightarrow> unit res \<times> world" where
  "client_save_tokens tokens now write_ok w =
     (case client_load_tokens (disk w) of
        Inl e \<Rightarrow> (Inl e, w)
      | Inr existing \<Rightarrow>
          (if \<not> write_ok then (Inl (Exn IOError ''cannot open for writing''), w)
           else (Inr (), w\<lparr>disk := Holds ((existing ++ tokens)(saved_at_key \<mapsto> JFloat now))\<rparr>)))"

section \<open>Page identity\<close>

text \<open>\<^verbatim>\<open>v.get(k)\<close> on a decoded value: \<^verbatim>\<open>AttributeError\<close> unless \<open>v\<close> is an object.\<close>

fun jget :: "json \<Rightarrow> string \<Rightarrow> json res" where
  "jget (JObj kvs) k = Inr (case map_of kvs k of None \<Rightarrow> JNull | Some v \<Rightarrow> v)"
| "jget _ k = Inl (Exn AttributeError ''object has no attribute get'')"

text \<open>The dict returned by the page lookup, with \<open>JNull\<close> for \<^verbatim>\<open>None\<close>.\<close>

record page_info =
  page_id :: json
  page_access_token :: json
  instagram_user_id :: json

text \<open>
  The loop \<^verbatim>\<open>for page in pages\<close> of \<^verbatim>\<open>_get_page_access_token_from_user_token\<close>:
  the first page whose \<^verbatim>\<open>instagram_business_account\<close> is truthy and has a truthy \<^verbatim>\<open>id\<close>.
\<close>

fun find_ig_page :: "json list \<Rightarrow> page_info option res" where
  "find_ig_page [] = Inr None"
| "find_ig_page (page # rest) =
     (case jget page ''instagram_business_account'' of
        Inl e \<Rightarrow> Inl e
      | Inr ig_account \<Rightarrow>
          (if truthy ig_account then
             (case jget ig_account ''id'' of
                Inl e \<Rightarrow> Inl e
              | Inr ig_id \<Rightarrow>
                  (if truthy ig_id then
                     (case (jget page ''id'', jget page ''access_token'') of
                        (Inr i, Inr t) \<Rightarrow>
                          Inr (Some \<lparr>page_id = i, page_access_token = t, instagram_user_id = ig_id\<rparr>)
                      | (Inl e, _) \<Rightarrow> Inl e
                      | (_, Inl e) \<Rightarrow> Inl e)
                   else find_ig_page rest))
           else find_ig_page rest))"

text \<open>The fallback \<^verbatim>\<open>pages[0]\<close> with \<^verbatim>\<open>instagram_user_id = None\<close>.\<close>

definition first_page :: "json list \<Rightarrow> page_info option res" where
  "first_page pages =
     (case pages of
        [] \<Rightarrow> Inr None
      | p # _ \<Rightarrow>
          (case (jget p ''id'', jget p ''access_token'') of
             (Inr i, Inr t) \<Rightarrow>
               Inr (Some \<lparr>page_id = i, page_access_token = t, instagram_user_id = JNull\<rparr>)
           | (Inl e, _) \<Rightarrow> Inl e
           | (_, Inl e) \<Rightarrow> Inl e))"

text \<open>
  The body of the \<^verbatim>\<open>try\<close> after the response is decoded. \<^verbatim>\<open>accounts_data.get("data", [])\<close>
  is a list of pages; iterating any other truthy value raises in the loop (a number is not
  iterable, the elements of a string or the keys of a dict have no \<^verbatim>\<open>get\<close>).
\<close>

definition select_page :: "dict \<Rightarrow> page_info option res" where
  "select_page accounts_data =
     (let pages = (case accounts_data ''data'' of None \<Rightarrow> JArr [] | Some v \<Rightarrow> v)
      in if \<not> truthy pages then Inr None
         else (case pages of
                 JArr ps \<Rightarrow>
                   (case find_ig_page ps of
                      Inl e \<Rightarrow> Inl e
                    | Inr (Some r) \<Rightarrow> Inr (Some r)
                    | Inr None \<Rightarrow> first_page ps)
               | _ \<Rightarrow> Inl (Exn AttributeError ''object has no attribute get'')))"

text \<open>
  \<^verbatim>\<open>_get_page_access_token_from_user_token\<close>: the whole body is inside
  \<^verbatim>\<open>try ... except Exception: return None\<close>.
\<close>

definition get_page_access_token_from_user_token ::
    "platform \<Rightarrow> json \<Rightarrow> world \<Rightarrow> page_info option \<times> world" where
  "get_page_access_token_from_user_token http user_access_token w =
     (case http (ListPages user_access_token) of
        Inl e \<Rightarrow> (None, send (ListPages user_access_token) w)
      | Inr accounts_data \<Rightarrow>
          (case select_page accounts_data of
             Inl e \<Rightarrow> (None, send (ListPages user_access_token) w)
           | Inr r \<Rightarrow> (r, send (ListPages user_access_token) w)))"


section \<open>Refresh\<close>

text \<open>The fields of \<^verbatim>\<open>Settings\<close> (config.py) that the client reads.\<close>

record settings =
  oauth2_client_id :: "string option"
  oauth2_client_secret :: "string option"

definition opt_truthy :: "string option \<Rightarrow> bool" where
  "opt_truthy v = (case v of None \<Rightarrow> False | Some s \<Rightarrow> s \<noteq> [])"

text \<open>
  \<^verbatim>\<open>InstagramClient._refresh_token\<close>. Everything after the configuration check runs inside
  \<^verbatim>\<open>try ... except Exception\<close>; the result is \<open>JNull\<close> for \<^verbatim>\<open>None\<close>.
\<close>

definition client_refresh_token ::
    "settings \<Rightarrow> platform \<Rightarrow> json \<Rightarrow> rat \<Rightarrow> bool \<Rightarrow> world \<Rightarrow> json \<times> world" where
  "client_refresh_token st http refresh_token now write_ok w =
     (if \<not> opt_truthy (oauth2_client_id st) \<or> \<not> opt_truthy (oauth2_client_secret st)
      then (JNull, w)
      else
        (let w1 = send (TokenExchange refresh_token) w in
         case http (TokenExchange refresh_token) of
           Inl e \<Rightarrow> (JNull, w1)
         | Inr token_data \<Rightarrow>
             (case token_data ''access_token'' of
                None \<Rightarrow> (JNull, w1)
              | Some new_token \<Rightarrow>
                  (case client_load_tokens (disk w1) of
                     Inl e \<Rightarrow> (JNull, w1)
                   | Inr existing \<Rightarrow>
                       (let t0 = [''access_token'' \<mapsto> new_token,
                                  ''expires_in'' \<mapsto>
                                     (case token_data ''expires_in'' of
                                        None \<Rightarrow> JInt 5184000
                                      | Some v \<Rightarrow> v)];
                            tokens_to_save =
                              (if truthy (dget existing ''refresh_token'')
                               then t0(''refresh_token'' \<mapsto> dget existing ''refresh_token'')
                               else t0)
                        in case client_save_tokens tokens_to_save now write_ok w1 of
                             (Inl e, w2) \<Rightarrow> (JNull, w2)
                           | (Inr u, w2) \<Rightarrow> (new_token, w2))))))"

text \<open>\<^verbatim>\<open>_is_oauth2_enabled\<close>, and the test on \<^verbatim>\<open>_get_oauth2_config()\<close>.\<close>

definition is_oauth2_enabled :: "world \<Rightarrow> bool" where
  "is_oauth2_enabled w =
     (env_truthy (env w) ''OAUTH2_CLIENT_ID'' \<noteq> None
      \<and> env_truthy (env w) ''OAUTH2_CLIENT_SECRET'' \<noteq> None)"

text \<open>The handler \<^verbatim>\<open>except requests.exceptions.RequestException: return None\<close>.\<close>

definition none_on_request_exception :: "json res \<times> world \<Rightarrow> json res \<times> world" where
  "none_on_request_exception m =
     (case m of
        (Inl e, w) \<Rightarrow> (if is_request_exception (exn_class_of e) then Inr JNull else Inl e, w)
      | (Inr v, w) \<Rightarrow> (Inr v, w))"

text \<open>
  \<^verbatim>\<open>_refresh_oauth2_token\<close> (instagram_mcp_server.py). The page lookup has its own
  \<^verbatim>\<open>except Exception\<close>; an exception that is not a \<^verbatim>\<open>RequestException\<close> leaves the
  function.
\<close>

definition refresh_tokens_to_save :: "dict \<Rightarrow> dict \<Rightarrow> json \<Rightarrow> page_info option \<Rightarrow> dict" where
  "refresh_tokens_to_save token_data existing_tokens new_token pinfo =
     (let t0 = [''access_token'' \<mapsto> new_token];
          t1 = (case token_data ''expires_in'' of None \<Rightarrow> t0 | Some v \<Rightarrow> t0(''expires_in'' \<mapsto> v));
          t2 = (case token_data ''refresh_token'' of
                  Some r \<Rightarrow> t1(''refresh_token'' \<mapsto> r)
                | None \<Rightarrow>
                    (if truthy (dget existing_tokens ''refresh_token'')
                     then t1(''refresh_token'' \<mapsto> dget existing_tokens ''refresh_token'')
                     else t1))
      in case pinfo of
           None \<Rightarrow> t2
         | Some p \<Rightarrow> t2(''page_access_token'' \<mapsto> page_access_token p,
                         ''facebook_page_id'' \<mapsto> page_id p))"

definition refresh_oauth2_token ::
    "platform \<Rightarrow> json \<Rightarrow> rat \<Rightarrow> bool \<Rightarrow> world \<Rightarrow> json res \<times> world" where
  "refresh_oauth2_token http refresh_token now write_ok w =
     (if \<not> is_oauth2_enabled w then (Inr JNull, w)
      else
        none_on_request_exception
          (let w1 = send (TokenExchange refresh_token) w in
           case http (TokenExchange refresh_token) of
             Inl e \<Rightarrow> (Inl e, w1)
           | Inr token_data \<Rightarrow>
               (case token_data ''access_token'' of
                  None \<Rightarrow> (Inr JNull, w1)
                | Some new_token \<Rightarrow>
                    (case load_tokens (disk w1) of
                       Inl e \<Rightarrow> (Inl e, w1)
                     | Inr existing_tokens \<Rightarrow>
                         (let (pinfo, w2) = get_page_access_token_from_user_token http new_token w1;
                              tokens_to_save =
                                refresh_tokens_to_save token_data existing_tokens new_token pinfo
                          in seq (save_tokens tokens_to_save now write_ok w2)
                            (\<lambda>_ w3. seq (set_environ ''INSTAGRAM_OAUTH_ACCESS_TOKEN'' new_token w3)
                            (\<lambda>_ w4. seq (mirror_truthy tokens_to_save ''page_access_token''
                                           ''INSTAGRAM_PAGE_ACCESS_TOKEN'' w4)
                            (\<lambda>_ w5. seq (mirror_truthy tokens_to_save ''facebook_page_id''
                                           ''FACEBOOK_PAGE_ID'' w5)
                            (\<lambda>_ w6. (Inr new_token, w6))))))))))"

section \<open>Credential resolution\<close>

text \<open>
  The token provider of the client: not registered, or a callback whose call raises or
  returns a value. \<^verbatim>\<open>creds.get\<close> on a truthy value that is not a dict raises inside the
  \<^verbatim>\<open>try\<close>, which the handler \<^verbatim>\<open>except Exception\<close> catches.
\<close>

definition provider_token :: "json res option \<Rightarrow> json option" where
  "provider_token token_provider =
     (case token_provider of
        None \<Rightarrow> None
      | Some (Inl e) \<Rightarrow> None
      | Some (Inr creds) \<Rightarrow>
          (if truthy creds then
             (case jget creds ''access_token'' of
                Inl e \<Rightarrow> None
              | Inr t \<Rightarrow> if truthy t then Some t else None)
           else None))"

text \<open>Python's \<^verbatim>\<open>a or b\<close>.\<close>

definition py_or :: "json \<Rightarrow> json \<Rightarrow> json" where
  "py_or a b = (if truthy a then a else b)"

text \<open>\<^verbatim>\<open>os.getenv(k)\<close> as a value: \<open>JNull\<close> when unset.\<close>

definition getenv :: "world \<Rightarrow> string \<Rightarrow> json" where
  "getenv w k = (case env w k of None \<Rightarrow> JNull | Some s \<Rightarrow> JStr s)"

text \<open>
  \<^verbatim>\<open>InstagramClient.get_access_token\<close>. \<open>now_check\<close> is the clock read by the expiry
  test, \<open>now_save\<close> and \<open>write_ok\<close> belong to the save of a refreshed token.
\<close>

definition client_get_access_token ::
    "json res option \<Rightarrow> settings \<Rightarrow> platform \<Rightarrow> rat \<Rightarrow> rat \<Rightarrow> bool \<Rightarrow> world
      \<Rightarrow> json res \<times> world" where
  "client_get_access_token token_provider st http now_check now_save write_ok w =
     (case provider_token token_provider of
        Some t \<Rightarrow> (Inr t, w)
      | None \<Rightarrow>
          (let direct_token = getenv w ''INSTAGRAM_ACCESS_TOKEN'' in
           if truthy direct_token then (Inr direct_token, w)
           else
             (case client_load_tokens (disk w) of
                Inl e \<Rightarrow> (Inl e, w)
              | Inr stored_tokens \<Rightarrow>
                  (let stored_access_token = dget stored_tokens ''access_token'' in
                   if truthy stored_access_token then
                     (case client_is_token_expired (disk w) now_check of
                        Inl e \<Rightarrow> (Inl e, w)
                      | Inr expired \<Rightarrow>
                          (if expired then
                             (let refresh_token =
                                    py_or (dget stored_tokens ''refresh_token'') stored_access_token
                              in if truthy refresh_token then
                                   (let (new_token, w1) =
                                          client_refresh_token st http refresh_token
                                            now_save write_ok w
                                    in if truthy new_token then (Inr new_token, w1)
                                       else (Inr stored_access_token, w1))
                                 else (Inr stored_access_token, w))
                           else (Inr stored_access_token, w)))
                   else
                     (let oauth_token = getenv w ''INSTAGRAM_OAUTH_ACCESS_TOKEN'' in
                      if truthy oauth_token then (Inr oauth_token, w)
                      else (Inl (Exn RuntimeError
                              ''Missing access token. Run: uv run instagram-mcp/oauth_setup.py''),
                            w))))))"

text \<open>
  A refresh attempt of the server's resolver:
  \<^verbatim>\<open>try: new_token = _refresh_oauth2_token(...) ... except Exception\<close>; the result is the
  new token when it is truthy.
\<close>

definition try_refresh ::
    "platform \<Rightarrow> json \<Rightarrow> rat \<Rightarrow> bool \<Rightarrow> world \<Rightarrow> json option \<times> world" where
  "try_refresh http refresh_token now write_ok w =
     (case refresh_oauth2_token http refresh_token now write_ok w of
        (Inl e, w1) \<Rightarrow> (None, w1)
      | (Inr new_token, w1) \<Rightarrow> (if truthy new_token then Some new_token else None, w1))"

text \<open>\<^verbatim>\<open>get_access_token\<close> (instagram_mcp_server.py).\<close>

definition get_access_token ::
    "platform \<Rightarrow> rat \<Rightarrow> rat \<Rightarrow> bool \<Rightarrow> world \<Rightarrow> json res \<times> world" where
  "get_access_token http now_check now_save write_ok w =
     (let direct_token = getenv w ''INSTAGRAM_ACCESS_TOKEN'' in
      if truthy direct_token then (Inr direct_token, w)
      else
        (case load_tokens (disk w) of
           Inl e \<Rightarrow> (Inl e, w)
         | Inr stored_tokens \<Rightarrow>
             (let stored_access_token = dget stored_tokens ''access_token'' in
              if truthy stored_access_token then
                (case is_token_expired (disk w) now_check of
                   Inl e \<Rightarrow> (Inl e, w)
                 | Inr expired \<Rightarrow>
                     (if expired then
                        (let refresh_token =
                               py_or (dget stored_tokens ''refresh_token'')
                                     (getenv w ''INSTAGRAM_OAUTH_REFRESH_TOKEN'')
                         in if truthy refresh_token \<and> is_oauth2_enabled w then
                              (case try_refresh http refresh_token now_save write_ok w of
                                 (Some new_token, w1) \<Rightarrow> (Inr new_token, w1)
                               | (None, w1) \<Rightarrow> (Inr stored_access_token, w1))
                            else (Inr stored_access_token, w))
                      else (Inr stored_access_token, w)))
              else
                (let oauth_token = getenv w ''INSTAGRAM_OAUTH_ACCESS_TOKEN'' in
                 if truthy oauth_token then (Inr oauth_token, w)
                 else
                   (let oauth_refresh_token = getenv w ''INSTAGRAM_OAUTH_REFRESH_TOKEN'';
                        missing = Inl (Exn RuntimeError
                          ''Missing required access token. Set INSTAGRAM_ACCESS_TOKEN or configure OAuth2.'')
                    in if is_oauth2_enabled w \<and> truthy oauth_refresh_token then
                         (case try_refresh http oauth_refresh_token now_save write_ok w of
                            (Some new_token, w1) \<Rightarrow> (Inr new_token, w1)
                          | (None, w1) \<Rightarrow> (missing, w1))
                       else (missing, w))))))"

section \<open>Code exchange\<close>

text \<open>
  Step 2 of \<^verbatim>\<open>_exchange_oauth2_code\<close>: the short-lived token is traded for a long-lived
  one; the handler of this step is \<^verbatim>\<open>except Exception\<close>.
\<close>

definition long_lived_step :: "platform \<Rightarrow> dict \<Rightarrow> world \<Rightarrow> dict \<times> world" where
  "long_lived_step http token_data w =
     (let short_lived_token = dget token_data ''access_token'' in
      if \<not> truthy short_lived_token then (token_data, w)
      else
        (case http (TokenExchange short_lived_token) of
           Inr long_lived_data \<Rightarrow>
             (let td1 = (case long_lived_data ''access_token'' of
                           Some a \<Rightarrow> token_data(''access_token'' \<mapsto> a)
                         | None \<Rightarrow> token_data);
                  td2 = (case long_lived_data ''expires_in'' of
                           Some x \<Rightarrow> td1(''expires_in'' \<mapsto> x)
                         | None \<Rightarrow> td1(''expires_in'' \<mapsto> JInt 5184000))
              in (td2, send (TokenExchange short_lived_token) w))
         | Inl e \<Rightarrow>
             ((case token_data ''expires_in'' of
                 None \<Rightarrow> token_data(''expires_in'' \<mapsto> JInt 3600)
               | Some x \<Rightarrow> token_data),
              send (TokenExchange short_lived_token) w)))"

text \<open>
  The page lookup after the save, inside its own \<^verbatim>\<open>try ... except Exception\<close>: an
  exception ends the block and keeps what was done before it.
\<close>

definition page_step :: "platform \<Rightarrow> dict \<Rightarrow> dict \<Rightarrow> rat \<Rightarrow> bool \<Rightarrow> world \<Rightarrow> world" where
  "page_step http token_data tokens_to_save now write_ok w =
     (case token_data ''access_token'' of
        None \<Rightarrow> w
      | Some a \<Rightarrow>
          (let (pinfo, w1) = get_page_access_token_from_user_token http a w in
           case pinfo of
             None \<Rightarrow> w1
           | Some p \<Rightarrow>
               (let t = tokens_to_save(''page_access_token'' \<mapsto> page_access_token p,
                                       ''facebook_page_id'' \<mapsto> page_id p)
                in snd (seq (mirror_truthy t ''page_access_token''
                               ''INSTAGRAM_PAGE_ACCESS_TOKEN'' w1)
                       (\<lambda>_ w2. seq (mirror_truthy t ''facebook_page_id'' ''FACEBOOK_PAGE_ID'' w2)
                       (\<lambda>_ w3. save_tokens t now write_ok w3))))))"

text \<open>The decimal text of an \<^verbatim>\<open>int\<close>.\<close>

function dec :: "nat \<Rightarrow> string" where
  "dec n = (if n < 10 then [char_of (48 + n)] else dec (n div 10) @ [char_of (48 + n mod 10)])"
  by pat_completeness auto
termination
  by (relation "measure id") auto

definition str_int :: "int \<Rightarrow> string" where
  "str_int i = (if i < 0 then CHR ''-'' # dec (nat (- i)) else dec (nat i))"

text \<open>
  \<^verbatim>\<open>str(v)\<close> inside an f-string, for the values the messages show: a string, \<^verbatim>\<open>None\<close>, a
  bool, an \<^verbatim>\<open>int\<close>. The text of other values is not modelled (no property below reads
  it): they show as \<open>...\<close>.
\<close>

fun py_str :: "json \<Rightarrow> string" where
  "py_str (JStr s) = s"
| "py_str JNull = ''None''"
| "py_str (JBool b) = (if b then ''True'' else ''False'')"
| "py_str (JInt i) = str_int i"
| "py_str _ = ''...''"

text \<open>\<^verbatim>\<open>v.get(k, d)\<close> on a decoded value.\<close>

fun jget_or :: "json \<Rightarrow> string \<Rightarrow> json \<Rightarrow> json res" where
  "jget_or (JObj kvs) k d = Inr (case map_of kvs k of None \<Rightarrow> d | Some v \<Rightarrow> v)"
| "jget_or _ k d = Inl (Exn AttributeError ''object has no attribute get'')"

text \<open>
  The message a handler of \<^verbatim>\<open>RequestException\<close> reports: \<^verbatim>\<open>str(e)\<close>, replaced by
  \<^verbatim>\<open>error_data.get("error", {}).get("message", error_msg)\<close> when the exception carries a
  response whose body decodes; any failure on the way leaves \<^verbatim>\<open>str(e)\<close>.
\<close>

definition response_message :: "exn \<Rightarrow> string" where
  "response_message e =
     (case e of
        HTTPError m (Some error_data) \<Rightarrow>
          (case jget_or error_data ''error'' (JObj []) of
             Inl x \<Rightarrow> m
           | Inr err \<Rightarrow>
               (case jget_or err ''message'' (JStr m) of
                  Inl x \<Rightarrow> m
                | Inr error_msg \<Rightarrow> py_str error_msg))
      | _ \<Rightarrow> exn_str e)"

text \<open>
  The outer handler \<^verbatim>\<open>except requests.exceptions.RequestException\<close>, which raises
  \<^verbatim>\<open>Exception("Failed to exchange OAuth2 code: ...")\<close>.
\<close>

definition exchange_failed :: "dict res \<times> world \<Rightarrow> dict res \<times> world" where
  "exchange_failed m =
     (case m of
        (Inl e, w) \<Rightarrow>
          (if is_request_exception (exn_class_of e)
           then Inl (Exn OtherException (''Failed to exchange OAuth2 code: '' @ response_message e))
           else Inl e, w)
      | (Inr v, w) \<Rightarrow> (Inr v, w))"

text \<open>
  \<^verbatim>\<open>_exchange_oauth2_code\<close>. \<open>now1\<close>, \<open>ok1\<close> belong to the first save and \<open>now2\<close>, \<open>ok2\<close>
  to the save after the page lookup.
\<close>

definition exchange_oauth2_code ::
    "platform \<Rightarrow> string \<Rightarrow> rat \<Rightarrow> bool \<Rightarrow> rat \<Rightarrow> bool \<Rightarrow> world \<Rightarrow> dict res \<times> world" where
  "exchange_oauth2_code http code now1 ok1 now2 ok2 w =
     (if \<not> is_oauth2_enabled w
      then (Inl (Exn ValueError ''OAUTH2_CLIENT_ID and OAUTH2_CLIENT_SECRET are required''), w)
      else
        exchange_failed
          (case http (CodeExchange code) of
             Inl e \<Rightarrow> (Inl e, send (CodeExchange code) w)
           | Inr first_response \<Rightarrow>
               (let (token_data, w1) =
                      long_lived_step http first_response (send (CodeExchange code) w);
                    tokens_to_save =
                      token_data |` {''access_token'', ''refresh_token'', ''expires_in''}
                in seq (mirror token_data ''access_token'' ''INSTAGRAM_OAUTH_ACCESS_TOKEN'' w1)
                  (\<lambda>_ w2. seq (mirror token_data ''refresh_token''
                                 ''INSTAGRAM_OAUTH_REFRESH_TOKEN'' w2)
                  (\<lambda>_ w3. seq (if token_data ''access_token'' = None
                                   \<and> token_data ''refresh_token'' = None
                                   \<and> token_data ''expires_in'' = None
                                then (Inr (), w3)
                                else save_tokens tokens_to_save now1 ok1 w3)
                  (\<lambda>_ w4. (Inr token_data,
                            page_step http token_data tokens_to_save now2 ok2 w4)))))))"

section \<open>The specification's vocabulary\<close>

text \<open>
  The words of the specification about the page lookup: the id of the Instagram account
  connected to a page (\<open>JNull\<close> when there is none), a field of a page, and the selection
  rule (the first connected page, else the first page with no Instagram id, else nothing).
  A page as the listing endpoint returns it is an object whose
  \<^verbatim>\<open>instagram_business_account\<close>, when it has one, is an object.
\<close>

definition ig_id_of :: "json \<Rightarrow> json" where
  "ig_id_of page =
     (case jget page ''instagram_business_account'' of
        Inr ig \<Rightarrow> (if truthy ig then (case jget ig ''id'' of Inr i \<Rightarrow> i | Inl e \<Rightarrow> JNull) else JNull)
      | Inl e \<Rightarrow> JNull)"

definition field :: "json \<Rightarrow> string \<Rightarrow> json" where
  "field page k = (case jget page k of Inr v \<Rightarrow> v | Inl e \<Rightarrow> JNull)"

fun is_obj :: "json \<Rightarrow> bool" where
  "is_obj (JObj kvs) = True"
| "is_obj _ = False"

fun wf_page :: "json \<Rightarrow> bool" where
  "wf_page (JObj kvs) =
     (case map_of kvs ''instagram_business_account'' of
        None \<Rightarrow> True
      | Some ig \<Rightarrow> (if truthy ig then is_obj ig else True))"
| "wf_page _ = False"

definition page_lookup_spec :: "json list \<Rightarrow> page_info option" where
  "page_lookup_spec pages =
     (case List.find (\<lambda>p. truthy (ig_id_of p)) pages of
        Some p \<Rightarrow> Some \<lparr>page_id = field p ''id'', page_access_token = field p ''access_token'',
                          instagram_user_id = ig_id_of p\<rparr>
      | None \<Rightarrow>
          (case pages of
             [] \<Rightarrow> None
           | p # rest \<Rightarrow> Some \<lparr>page_id = field p ''id'', page_access_token = field p ''access_token'',
                          instagram_user_id = JNull\<rparr>))"

text \<open>A process with an empty environment, no token file and no request sent.\<close>

definition fresh_world :: world where
  "fresh_world = \<lparr>disk = Absent, env = Map.empty, reqs = []\<rparr>"

text \<open>A field of the record the token file holds (nothing when the file holds no record).\<close>

definition stored_field :: "world \<Rightarrow> string \<Rightarrow> json option" where
  "stored_field w k = (case disk w of Holds d \<Rightarrow> d k | _ \<Rightarrow> None)"

text \<open>
  The resolution order in the specification's words: four sources in a fixed order, each
  yielding a token or nothing, and the first source that yields a token wins. The store
  yields its \<^verbatim>\<open>access_token\<close>, or the refreshed one when the stored token is judged expired
  and the refresh returns a token.
\<close>

datatype source = Provider | DirectEnv | Store | LegacyEnv

definition env_token :: "world \<Rightarrow> string \<Rightarrow> json option" where
  "env_token w k =
     (case env w k of None \<Rightarrow> None | Some s \<Rightarrow> if s = [] then None else Some (JStr s))"

definition store_token ::
    "settings \<Rightarrow> platform \<Rightarrow> rat \<Rightarrow> rat \<Rightarrow> bool \<Rightarrow> world \<Rightarrow> json option" where
  "store_token st http now_check now_save write_ok w =
     (case client_load_tokens (disk w) of
        Inl e \<Rightarrow> None
      | Inr d \<Rightarrow>
          (case d ''access_token'' of
             None \<Rightarrow> None
           | Some a \<Rightarrow>
               (if \<not> truthy a then None
                else if client_is_token_expired (disk w) now_check = Inr True then
                  (let credential = (case d ''refresh_token'' of
                                       None \<Rightarrow> a
                                     | Some r \<Rightarrow> if truthy r then r else a);
                       refreshed = fst (client_refresh_token st http credential
                                          now_save write_ok w)
                   in Some (if truthy refreshed then refreshed else a))
                else Some a)))"

fun source_token ::
    "json res option \<Rightarrow> settings \<Rightarrow> platform \<Rightarrow> rat \<Rightarrow> rat \<Rightarrow> bool \<Rightarrow> world
      \<Rightarrow> source \<Rightarrow> json option" where
  "source_token tp st http now_check now_save write_ok w Provider =
     (case tp of
        Some (Inr (JObj kvs)) \<Rightarrow>
          (case map_of kvs ''access_token'' of
             Some t \<Rightarrow> if truthy t then Some t else None
           | None \<Rightarrow> None)
      | _ \<Rightarrow> None)"
| "source_token tp st http now_check now_save write_ok w DirectEnv =
     env_token w ''INSTAGRAM_ACCESS_TOKEN''"
| "source_token tp st http now_check now_save write_ok w Store =
     store_token st http now_check now_save write_ok w"
| "source_token tp st http now_check now_save write_ok w LegacyEnv =
     env_token w ''INSTAGRAM_OAUTH_ACCESS_TOKEN''"

definition resolve_spec ::
    "json res option \<Rightarrow> settings \<Rightarrow> platform \<Rightarrow> rat \<Rightarrow> rat \<Rightarrow> bool \<Rightarrow> world \<Rightarrow> json res" where
  "resolve_spec tp st http now_check now_save write_ok w =
     (case List.map_filter (source_token tp st http now_check now_save write_ok w)
             [Provider, DirectEnv, Store, LegacyEnv] of
        [] \<Rightarrow> Inl (Exn RuntimeError
                 ''Missing access token. Run: uv run instagram-mcp/oauth_setup.py'')
      | t # rest \<Rightarrow> Inr t)"

text \<open>
  The end-to-end scenario of the specification, at time 5000: the store holds token \<open>A\<close>, saved
  at time 1000 with \<^verbatim>\<open>expires_in = 3600\<close> and no \<^verbatim>\<open>refresh_token\<close>; the OAuth client is
  configured; the token endpoint answers \<^verbatim>\<open>{"access_token": "B", "expires_in": 5184000}\<close>
  and the page listing is empty.
\<close>

definition scenario_store :: dict where
  "scenario_store = [''access_token'' \<mapsto> JStr ''A'', ''expires_in'' \<mapsto> JInt 3600,
                     saved_at_key \<mapsto> JFloat 1000]"

definition scenario_world :: world where
  "scenario_world =
     \<lparr>disk = Holds scenario_store,
      env = [''OAUTH2_CLIENT_ID'' \<mapsto> ''id'', ''OAUTH2_CLIENT_SECRET'' \<mapsto> ''secret''],
      reqs = []\<rparr>"

definition scenario_settings :: settings where
  "scenario_settings = \<lparr>oauth2_client_id = Some ''id'', oauth2_client_secret = Some ''secret''\<rparr>"

fun scenario_platform :: platform where
  "scenario_platform (TokenExchange c) =
     Inr [''access_token'' \<mapsto> JStr ''B'', ''expires_in'' \<mapsto> JInt 5184000]"
| "scenario_platform (ListPages t) = Inr [''data'' \<mapsto> JArr []]"
| "scenario_platform (CodeExchange c) = Inl (Exn RequestException ''400 Bad Request'')"

text \<open>
  A platform that answers the code exchange with a short-lived token \<open>S\<close> and
  \<^verbatim>\<open>expires_in = 7200\<close>, and fails the long-lived exchange.
\<close>

fun short_only_platform :: platform where
  "short_only_platform (CodeExchange c) =
     Inr [''access_token'' \<mapsto> JStr ''S'', ''expires_in'' \<mapsto> JInt 7200]"
| "short_only_platform (TokenExchange c) = Inl (Exn RequestException ''500 Server Error'')"
| "short_only_platform (ListPages t) = Inr [''data'' \<mapsto> JArr []]"

text \<open>A field that is a string when it is present.\<close>

fun str_or_absent :: "json option \<Rightarrow> bool" where
  "str_or_absent None = True"
| "str_or_absent (Some (JStr s)) = True"
| "str_or_absent (Some _) = False"

section \<open>Tools\<close>

text \<open>
  Strings as Python treats them in the tools, for ASCII text: \<^verbatim>\<open>lower()\<close>, \<^verbatim>\<open>upper()\<close>,
  \<^verbatim>\<open>sub in s\<close>, \<^verbatim>\<open>s.strip() == ""\<close> and the decimal text of an integer.
\<close>

definition lower_char :: "char \<Rightarrow> char" where
  "lower_char c =
     (let n = (of_char c :: nat) in if 65 \<le> n \<and> n \<le> 90 then char_of (n + 32) else c)"


definition py_lower :: "string \<Rightarrow> string" where
  "py_lower s = map lower_char s"


fun contains :: "string \<Rightarrow> string \<Rightarrow> bool" where
  "contains sub [] = (sub = [])"
| "contains sub (c # s) = (take (length sub) (c # s) = sub \<or> contains sub s)"

definition is_space :: "char \<Rightarrow> bool" where
  "is_space c = ((of_char c :: nat) \<in> {9, 10, 11, 12, 13, 28, 29, 30, 31, 32})"

definition is_blank :: "string \<Rightarrow> bool" where
  "is_blank s = list_all is_space s"

text \<open>A text between single quotes.\<close>

definition quoted :: "string \<Rightarrow> string" where
  "quoted s = [CHR 0x27] @ s @ [CHR 0x27]"

text \<open>An optional string argument as a value, and its truth test.\<close>

definition arg :: "string option \<Rightarrow> json" where
  "arg a = (case a of None \<Rightarrow> JNull | Some s \<Rightarrow> JStr s)"

definition given :: "string option \<Rightarrow> bool" where
  "given a = (case a of None \<Rightarrow> False | Some s \<Rightarrow> s \<noteq> [])"

text \<open>
  The calls a tool makes through \<^verbatim>\<open>make_api_request\<close>, by what they ask: the page
  listing, the status of a container, the creation of a container, the publish call and
  the live media of a user; each with the Graph API version in force.
\<close>

datatype api_req =
    GetAccounts
  | GetStatus string
  | PostMedia json "(string \<times> json) list"
  | PostPublish json string
  | GetLiveMedia json string

type_synonym api_call = "string \<times> api_req"

text \<open>
  The state of a tool invocation: the environment, the calls made, the sleeps taken and
  the number of clock readings. \<^verbatim>\<open>make_api_request\<close> resolves the credential (above) and
  sends the request; here it is its outcome, given by the platform as a function of the
  calls made before and of the call: the decoded body, or the exception that leaves
  \<^verbatim>\<open>make_api_request\<close> (no token, a transport or HTTP failure wrapped in \<^verbatim>\<open>Exception\<close>, a
  body that is not JSON). The clock is the sequence of readings of \<^verbatim>\<open>time.time()\<close>.
\<close>

record tworld =
  tenv :: "string \<rightharpoonup> string"
  calls :: "api_call list"
  sleeps :: "rat list"
  reads :: nat

type_synonym api = "api_call list \<Rightarrow> api_call \<Rightarrow> json res"

text \<open>\<^verbatim>\<open>get_graph_api_version\<close>: \<^verbatim>\<open>get_env("INSTAGRAM_GRAPH_API_VERSION", "v21.0")\<close>.\<close>

definition get_graph_api_version :: "tworld \<Rightarrow> string" where
  "get_graph_api_version w =
     (case env_truthy (tenv w) ''INSTAGRAM_GRAPH_API_VERSION'' of None \<Rightarrow> ''v21.0'' | Some v \<Rightarrow> v)"

definition make_api_request :: "api \<Rightarrow> api_req \<Rightarrow> tworld \<Rightarrow> json res \<times> tworld" where
  "make_api_request platform r w =
     (let c = (get_graph_api_version w, r)
      in (platform (calls w) c, w\<lparr>calls := calls w @ [c]\<rparr>))"

text \<open>
  The version override around a request:
  \<^verbatim>\<open>if graph_api_version: original = os.environ.get(V); os.environ[V] = graph_api_version;
  try: result = make_api_request(...) finally: restore\<close>, where the restore puts a truthy
  original back and otherwise deletes the variable.
\<close>

definition with_version ::
    "string option \<Rightarrow> (tworld \<Rightarrow> json res \<times> tworld) \<Rightarrow> tworld \<Rightarrow> json res \<times> tworld" where
  "with_version graph_api_version request w =
     (if given graph_api_version then
        (let original_version = env_truthy (tenv w) ''INSTAGRAM_GRAPH_API_VERSION'';
             (result, w1) = request
                (w\<lparr>tenv := (tenv w)(''INSTAGRAM_GRAPH_API_VERSION'' := graph_api_version)\<rparr>)
         in (result, w1\<lparr>tenv := (tenv w1)(''INSTAGRAM_GRAPH_API_VERSION'' := original_version)\<rparr>))
      else request w)"

text \<open>\<^verbatim>\<open>time.sleep(d)\<close>: \<^verbatim>\<open>ValueError\<close> for a negative \<open>d\<close>; otherwise the delay is logged.\<close>

definition slept :: "rat \<Rightarrow> tworld \<Rightarrow> tworld" where
  "slept d w = w\<lparr>sleeps := sleeps w @ [d]\<rparr>"

definition sleep :: "rat \<Rightarrow> tworld \<Rightarrow> unit res \<times> tworld" where
  "sleep d w =
     (if d < 0 then (Inl (Exn ValueError ''sleep length must be non-negative''), w)
      else (Inr (), slept d w))"

definition time_now :: "(nat \<Rightarrow> rat) \<Rightarrow> tworld \<Rightarrow> rat \<times> tworld" where
  "time_now clock w = (clock (reads w), w\<lparr>reads := Suc (reads w)\<rparr>)"

text \<open>
  \<^verbatim>\<open>_validate_required\<close> for its one use here, a single required string argument:
  \<^verbatim>\<open>None\<close> and a blank string are missing. The result is the validated argument.
\<close>

definition validate_required :: "string \<Rightarrow> string option \<Rightarrow> string res" where
  "validate_required key v =
     (case v of
        None \<Rightarrow> Inl (Exn ValueError (''Missing required parameter(s): '' @ key))
      | Some s \<Rightarrow>
          if is_blank s then Inl (Exn ValueError (''Missing required parameter(s): '' @ key))
          else Inr s)"

text \<open>The loop of \<^verbatim>\<open>_get_instagram_user_id\<close> over the pages.\<close>

fun first_ig_id :: "json list \<Rightarrow> json option res" where
  "first_ig_id [] = Inr None"
| "first_ig_id (page # rest) =
     (case jget page ''instagram_business_account'' of
        Inl e \<Rightarrow> Inl e
      | Inr ig_account \<Rightarrow>
          (if truthy ig_account then
             (case jget ig_account ''id'' of
                Inl e \<Rightarrow> Inl e
              | Inr i \<Rightarrow> if truthy i then Inr (Some i) else first_ig_id rest)
           else first_ig_id rest))"

text \<open>The line break inside a message.\<close>

definition nl :: string where
  "nl = [CHR 0x0A]"

text \<open>
  The handlers of \<^verbatim>\<open>_get_instagram_user_id\<close>: a \<^verbatim>\<open>RuntimeError\<close> is raised again, any
  other exception becomes a \<^verbatim>\<open>RuntimeError\<close> whose text depends on the message.
\<close>

definition as_runtime_error :: "exn \<Rightarrow> exn" where
  "as_runtime_error e =
     (if exn_class_of e = RuntimeError then e
      else if contains ''permission'' (py_lower (exn_str e))
              \<or> contains ''access'' (py_lower (exn_str e))
      then Exn RuntimeError
             (''Failed to access Facebook Pages: '' @ exn_str e @ nl
              @ ''To fix this:'' @ nl
              @ ''1. Ensure your access token has '' @ quoted ''pages_show_list''
              @ '' permission'' @ nl
              @ ''2. Or set INSTAGRAM_USER_ID environment variable directly'')
      else Exn RuntimeError
             (''Could not auto-detect Instagram user ID: '' @ exn_str e @ nl
              @ ''To fix this:'' @ nl
              @ ''1. Set INSTAGRAM_USER_ID environment variable with your Instagram user ID'' @ nl
              @ ''2. Or ensure your access token has proper permissions and your Instagram account is connected to a Facebook Page''))"

definition detect_ig_id :: "json \<Rightarrow> json res" where
  "detect_ig_id accounts =
     (case jget_or accounts ''data'' (JArr []) of
        Inl e \<Rightarrow> Inl e
      | Inr pages_data \<Rightarrow>
          (if \<not> truthy pages_data
           then Inl (Exn RuntimeError
                  (''No Facebook Pages found. To fix this:'' @ nl
                   @ ''1. Ensure your access token has '' @ quoted ''pages_show_list''
                   @ '' permission'' @ nl
                   @ ''2. Make sure you have at least one Facebook Page'' @ nl
                   @ ''3. Or set INSTAGRAM_USER_ID environment variable directly''))
           else (case pages_data of
                   JArr ps \<Rightarrow>
                     (case first_ig_id ps of
                        Inl e \<Rightarrow> Inl e
                      | Inr (Some i) \<Rightarrow> Inr i
                      | Inr None \<Rightarrow>
                          Inl (Exn RuntimeError
                            (''No Instagram Business/Creator account found on your Facebook Pages. To fix this:'' @ nl
                             @ ''1. Make sure your Instagram account is a Business or Creator account (not Personal)'' @ nl
                             @ ''2. Connect your Instagram account to a Facebook Page in Facebook Business Settings'' @ nl
                             @ ''3. Or set INSTAGRAM_USER_ID environment variable directly with your Instagram user ID'')))
                 | _ \<Rightarrow> Inl (Exn AttributeError ''object has no attribute get''))))"

definition get_instagram_user_id :: "api \<Rightarrow> string option \<Rightarrow> tworld \<Rightarrow> json res \<times> tworld" where
  "get_instagram_user_id platform provided_id w =
     (if given provided_id then (Inr (arg provided_id), w)
      else
        (case env_truthy (tenv w) ''INSTAGRAM_USER_ID'' of
           Some env_user_id \<Rightarrow> (Inr (JStr env_user_id), w)
         | None \<Rightarrow>
             (case make_api_request platform GetAccounts w of
                (Inl e, w1) \<Rightarrow> (Inl (as_runtime_error e), w1)
              | (Inr accounts, w1) \<Rightarrow>
                  (case detect_ig_id accounts of
                     Inl e \<Rightarrow> (Inl (as_runtime_error e), w1)
                   | Inr i \<Rightarrow> (Inr i, w1)))))"

text \<open>The result envelope: a dict with the keys in the order of the literal.\<close>

type_synonym envelope = "(string \<times> json) list"

definition success :: "json \<Rightarrow> envelope" where
  "success result = [(''data'', result), (''error'', JStr ''''), (''successful'', JBool True)]"

definition failure :: "string \<Rightarrow> envelope" where
  "failure msg = [(''data'', JObj []), (''error'', JStr msg), (''successful'', JBool False)]"

text \<open>The two handlers shared by the status tool and the publish tool.\<close>

definition on_exception :: "string \<Rightarrow> string \<Rightarrow> string \<Rightarrow> exn \<Rightarrow> envelope" where
  "on_exception timeout_text hint prefix e =
     (if exn_class_of e = Timeout then failure (timeout_text @ exn_str e)
      else failure (prefix @
             (if contains ''timeout'' (py_lower (exn_str e)) then hint @ exn_str e
              else exn_str e)))"






text \<open>
  The status loop of \<^verbatim>\<open>INSTAGRAM_CREATE_POST\<close>, by the number of attempts left. The result
  is the envelope of an early \<^verbatim>\<open>return\<close>, or nothing when the loop ends (by \<^verbatim>\<open>break\<close> or
  after the last attempt).
\<close>

fun create_post_poll ::
    "api \<Rightarrow> string option \<Rightarrow> string \<Rightarrow> rat \<Rightarrow> nat \<Rightarrow> tworld \<Rightarrow> envelope option res \<times> tworld" where
  "create_post_poll platform v c retry_delay 0 w = (Inr None, w)"
| "create_post_poll platform v c retry_delay (Suc n) w =
     (case with_version v (make_api_request platform (GetStatus c)) w of
        (Inl e, w1) \<Rightarrow> (Inl e, w1)
      | (Inr status_data, w1) \<Rightarrow>
          (case jget status_data ''status_code'' of
             Inl e \<Rightarrow> (Inl e, w1)
           | Inr status_code \<Rightarrow>
               (if status_code = JStr ''FINISHED'' then (Inr None, w1)
                else if status_code = JStr ''ERROR''
                then (Inr (Some (failure ''Media container processing failed'')), w1)
                else if 0 < n
                then (case sleep retry_delay w1 of
                        (Inl e, w2) \<Rightarrow> (Inl e, w2)
                      | (Inr u, w2) \<Rightarrow>
                          create_post_poll platform v c (min (fl (retry_delay * (3 / 2))) 10) n w2)
                else create_post_poll platform v c retry_delay n w1)))"

text \<open>\<^verbatim>\<open>INSTAGRAM_CREATE_POST\<close>: 15 attempts, a first delay of 3 seconds.\<close>

definition create_post ::
    "api \<Rightarrow> string option \<Rightarrow> string option \<Rightarrow> string option \<Rightarrow> tworld \<Rightarrow> envelope \<times> tworld" where
  "create_post platform creation_id graph_api_version ig_user_id w =
     (case seq (validate_required ''creation_id'' creation_id, w)
             (\<lambda>c w0. seq (get_instagram_user_id platform ig_user_id w0)
             (\<lambda>ig w1. seq (create_post_poll platform graph_api_version c 3 15 w1)
             (\<lambda>early w2.
                case early of
                  Some e \<Rightarrow> (Inr e, w2)
                | None \<Rightarrow>
                    seq (with_version graph_api_version
                           (make_api_request platform (PostPublish ig c)) w2)
                      (\<lambda>result w3. (Inr (success result), w3))))) of
        (Inr e, w4) \<Rightarrow> (e, w4)
      | (Inl e, w4) \<Rightarrow> (failure (''Failed to create post: '' @ exn_str e), w4))"

text \<open>
  The status loop of \<^verbatim>\<open>INSTAGRAM_POST_IG_USER_MEDIA_PUBLISH\<close>: each attempt first reads the
  clock and returns the timeout failure when the elapsed time has reached \<open>max_wait\<close>.
\<close>

definition wait_timeout :: "int \<Rightarrow> envelope" where
  "wait_timeout max_wait =
     failure (''Media container did not finish processing within '' @ str_int max_wait
              @ '' seconds. Status may still be IN_PROGRESS. Try again later or check status manually.'')"

definition container_error :: envelope where
  "container_error = failure ''Media container processing failed with ERROR status''"

fun publish_poll ::
    "api \<Rightarrow> (nat \<Rightarrow> rat) \<Rightarrow> string option \<Rightarrow> string \<Rightarrow> int \<Rightarrow> int \<Rightarrow> rat \<Rightarrow> nat \<Rightarrow> tworld
      \<Rightarrow> envelope option res \<times> tworld" where
  "publish_poll platform clock v c max_wait poll_interval start_time 0 w = (Inr None, w)"
| "publish_poll platform clock v c max_wait poll_interval start_time (Suc n) w =
     (let (now, w0) = time_now clock w
      in if fl (now - start_time) \<ge> of_int max_wait
         then (Inr (Some (wait_timeout max_wait)), w0)
         else
           (case with_version v (make_api_request platform (GetStatus c)) w0 of
              (Inl e, w1) \<Rightarrow> (Inl e, w1)
            | (Inr status_data, w1) \<Rightarrow>
                (case jget status_data ''status_code'' of
                   Inl e \<Rightarrow> (Inl e, w1)
                 | Inr status_code \<Rightarrow>
                     (if status_code = JStr ''FINISHED'' then (Inr None, w1)
                      else if status_code = JStr ''ERROR'' then (Inr (Some container_error), w1)
                      else if 0 < n
                      then (case sleep (of_int poll_interval) w1 of
                              (Inl e, w2) \<Rightarrow> (Inl e, w2)
                            | (Inr u, w2) \<Rightarrow>
                                publish_poll platform clock v c max_wait poll_interval
                                  start_time n w2)
                      else publish_poll platform clock v c max_wait poll_interval start_time n
                             w1))))"

text \<open>\<^verbatim>\<open>x or d\<close> for an optional integer argument.\<close>

definition int_or :: "int option \<Rightarrow> int \<Rightarrow> int" where
  "int_or x d = (case x of None \<Rightarrow> d | Some i \<Rightarrow> if i = 0 then d else i)"

text \<open>The final status check and the publish call after the loop.\<close>

definition final_check_and_publish ::
    "api \<Rightarrow> string option \<Rightarrow> json \<Rightarrow> string \<Rightarrow> tworld \<Rightarrow> envelope res \<times> tworld" where
  "final_check_and_publish platform v ig c w =
     seq (with_version v (make_api_request platform (GetStatus c)) w)
       (\<lambda>final_status w1.
          case jget final_status ''status_code'' of
            Inl e \<Rightarrow> (Inl e, w1)
          | Inr status_code \<Rightarrow>
              if status_code \<noteq> JStr ''FINISHED''
              then (Inr (failure (''Media container status is '' @ quoted (py_str status_code)
                                  @ '', not FINISHED. Processing may still be in progress.'')), w1)
              else seq (with_version v (make_api_request platform (PostPublish ig c)) w1)
                     (\<lambda>result w2. (Inr (success result), w2)))"

text \<open>\<^verbatim>\<open>INSTAGRAM_POST_IG_USER_MEDIA_PUBLISH\<close>.\<close>

definition post_ig_user_media_publish ::
    "api \<Rightarrow> (nat \<Rightarrow> rat) \<Rightarrow> string option \<Rightarrow> int option \<Rightarrow> int option \<Rightarrow> string option
      \<Rightarrow> string option \<Rightarrow> tworld \<Rightarrow> envelope \<times> tworld" where
  "post_ig_user_media_publish platform clock creation_id max_wait_seconds poll_interval_seconds
       graph_api_version ig_user_id w =
     (case seq (validate_required ''creation_id'' creation_id, w)
             (\<lambda>c w0. seq (get_instagram_user_id platform ig_user_id w0)
             (\<lambda>ig w1.
                let max_wait = min (int_or max_wait_seconds 45) 45;
                    poll_interval = int_or poll_interval_seconds 3;
                    max_retries = (if 0 < poll_interval then max_wait div poll_interval else 15);
                    (start_time, w2) = time_now clock w1
                in seq (publish_poll platform clock graph_api_version c max_wait poll_interval
                          start_time (nat max_retries) w2)
                     (\<lambda>early w3.
                        case early of
                          Some e \<Rightarrow> (Inr e, w3)
                        | None \<Rightarrow> final_check_and_publish platform graph_api_version ig c w3))) of
        (Inr e, w4) \<Rightarrow> (e, w4)
      | (Inl e, w4) \<Rightarrow>
          (on_exception
             ''Request timed out during media publishing. The polling may have taken too long. Try using GET_POST_STATUS to check status manually, then publish when ready. Error: ''
             ''Request timed out. The polling may have taken too long. Try reducing max_wait_seconds or use GET_POST_STATUS to check status manually. ''
             ''Failed to publish media: '' e, w4))"


text \<open>
  The words of the specification about the poller: the answer to a status call with a
  given status, a platform that answers the successive status calls from a script (and with
  \<open>later\<close> once the script is used up) and every other call with \<open>other\<close>, and the number of
  status and publish calls made.
\<close>

definition status_answer :: "string \<Rightarrow> json res" where
  "status_answer s = Inr (JObj [(''status_code'', JStr s)])"

fun is_status_call :: "api_call \<Rightarrow> bool" where
  "is_status_call (v, GetStatus c) = True"
| "is_status_call _ = False"

fun is_publish_call :: "api_call \<Rightarrow> bool" where
  "is_publish_call (v, PostPublish i c) = True"
| "is_publish_call _ = False"

definition scripted :: "json res list \<Rightarrow> json res \<Rightarrow> json res \<Rightarrow> api" where
  "scripted script later other history call =
     (if is_status_call call then
        (let k = length (filter is_status_call history)
         in if k < length script then script ! k else later)
      else other)"

definition status_calls :: "tworld \<Rightarrow> nat" where
  "status_calls w = length (filter is_status_call (calls w))"

definition publish_calls :: "tworld \<Rightarrow> nat" where
  "publish_calls w = length (filter is_publish_call (calls w))"

definition idle :: tworld where
  "idle = \<lparr>tenv = Map.empty, calls = [], sleeps = [], reads = 0\<rparr>"



text \<open>Two clocks for the runs below: one that stands still, one that advances three seconds
  between readings.\<close>

definition stopped_clock :: "nat \<Rightarrow> rat" where
  "stopped_clock n = 0"


section \<open>Properties of the token file\<close>

lemma client_load_tokens_total: "\<exists>d. client_load_tokens f = Inr d"
  by (cases f) (simp_all add: client_load_tokens_def)

lemma client_load_tokens_empty:
  "f = Absent \<or> f = Unreadable \<or> f = Undecodable \<or> f = Malformed
     \<Longrightarrow> client_load_tokens f = Inr Map.empty"
  by (auto simp: client_load_tokens_def)

lemma load_tokens_empty:
  "f = Absent \<or> f = Unreadable \<or> f = Malformed \<Longrightarrow> load_tokens f = Inr Map.empty"
  by (auto simp: load_tokens_def)

text \<open>
  C10. The claim is that \<^verbatim>\<open>load()\<close> returns an empty record and never raises when the token
  file is absent, unreadable or malformed. The client's loader does so on a file whose bytes
  cannot be decoded; the server's loader lets the \<^verbatim>\<open>UnicodeDecodeError\<close> out.
\<close>

theorem load_tokens_undecodable_raises:
  "client_load_tokens Undecodable = Inr Map.empty
   \<and> load_tokens Undecodable = Inl (Exn UnicodeDecodeError ''codec cannot decode byte'')"
  by (simp add: client_load_tokens_def load_tokens_def)

section \<open>Properties of save\<close>

lemma merge_tokens_overlay:
  "merge_tokens existing tokens now =
     (if tokens ''access_token'' = None then existing ++ tokens
      else (existing ++ tokens)(saved_at_key \<mapsto> JFloat now))"
proof (rule ext)
  fix k
  show "merge_tokens existing tokens now k =
     (if tokens ''access_token'' = None then existing ++ tokens
      else (existing ++ tokens)(saved_at_key \<mapsto> JFloat now)) k"
    by (auto simp: merge_tokens_def Let_def map_add_def saved_at_key_def split: option.splits)
qed

text \<open>
  C2. The claim is that a save overlays the partial record and stamps the timestamp only when
  the partial holds \<^verbatim>\<open>access_token\<close>. The client's save of \<^verbatim>\<open>{"page_access_token": "X"}\<close>
  at time 2000 over a record saved at time 1000 keeps the three fields and moves the
  timestamp to 2000.
\<close>

theorem client_save_tokens_restamps:
  "(case disk (snd (client_save_tokens [''page_access_token'' \<mapsto> JStr ''X''] 2000 True
        (fresh_world\<lparr>disk := Holds [''access_token'' \<mapsto> JStr ''A'',
                                      ''refresh_token'' \<mapsto> JStr ''R'',
                                      saved_at_key \<mapsto> JFloat 1000]\<rparr>))) of
      Holds d \<Rightarrow> d ''access_token'' = Some (JStr ''A'') \<and> d ''refresh_token'' = Some (JStr ''R'')
                 \<and> d ''page_access_token'' = Some (JStr ''X'')
                 \<and> d saved_at_key = Some (JFloat 2000)
    | _ \<Rightarrow> False)"
  by (simp add: client_save_tokens_def client_load_tokens_def fresh_world_def saved_at_key_def)


lemma snd_swallow_io: "snd (swallow_io m) = snd m"
  by (cases m) (auto simp: swallow_io_def split: sum.splits)

lemma set_environ_frame:
  "disk (snd (set_environ k v w)) = disk w" "reqs (snd (set_environ k v w)) = reqs w"
  by (cases v; simp add: set_environ_def)+

lemma mirror_frame:
  "disk (snd (mirror t k v w)) = disk w" "reqs (snd (mirror t k v w)) = reqs w"
  by (simp_all add: mirror_def set_environ_frame split: option.splits)

lemma mirror_truthy_frame:
  "disk (snd (mirror_truthy t k v w)) = disk w" "reqs (snd (mirror_truthy t k v w)) = reqs w"
  by (simp_all add: mirror_truthy_def set_environ_frame)

lemma seq_frame:
  assumes "\<And>x w'. g (snd (f x w')) = g w'"
  shows "g (snd (seq m f)) = g (snd m)"
proof (cases m)
  case (Pair r w)
  then show ?thesis using assms by (cases r) (simp_all add: seq_def)
qed

lemma save_tokens_disk:
  assumes "load_tokens (disk w) = Inr existing"
  shows "disk (snd (save_tokens tokens now write_ok w)) =
     (if write_ok then Holds (merge_tokens existing tokens now) else disk w)"
proof -
  have "disk (snd (seq (mirror tokens ''access_token'' ''INSTAGRAM_OAUTH_ACCESS_TOKEN'' w0)
          (\<lambda>_ w1. seq (mirror tokens ''refresh_token'' ''INSTAGRAM_OAUTH_REFRESH_TOKEN'' w1)
          (\<lambda>_ w2. seq (mirror tokens ''page_access_token'' ''INSTAGRAM_PAGE_ACCESS_TOKEN'' w2)
          (\<lambda>_ w3. mirror tokens ''facebook_page_id'' ''FACEBOOK_PAGE_ID'' w3))))) = disk w0" for w0
    by (simp add: seq_frame mirror_frame)
  with assms show ?thesis
    by (simp add: save_tokens_def snd_swallow_io)
qed

lemma save_tokens_reqs: "reqs (snd (save_tokens tokens now write_ok w)) = reqs w"
proof -
  have "reqs (snd (seq (mirror tokens ''access_token'' ''INSTAGRAM_OAUTH_ACCESS_TOKEN'' w0)
          (\<lambda>_ w1. seq (mirror tokens ''refresh_token'' ''INSTAGRAM_OAUTH_REFRESH_TOKEN'' w1)
          (\<lambda>_ w2. seq (mirror tokens ''page_access_token'' ''INSTAGRAM_PAGE_ACCESS_TOKEN'' w2)
          (\<lambda>_ w3. mirror tokens ''facebook_page_id'' ''FACEBOOK_PAGE_ID'' w3))))) = reqs w0" for w0
    by (simp add: seq_frame mirror_frame)
  then show ?thesis
    by (cases "load_tokens (disk w)") (simp_all add: save_tokens_def snd_swallow_io)
qed


section \<open>Properties of the expiry test\<close>

lemma fl_small: "fl 300 = 300" "fl 3600 = 3600" "fl 4600 = 4600" "fl 4300 = 4300"
    "fl (- 400) = - 400" "fl 1000 = 1000" "fl 5000 = 5000"
  by code_simp+

lemma to_float_300: "to_float (PInt 300) = Inr 300"
  by (simp add: fl_small)

text \<open>
  C3, as the claim states it, fails: a record with \<^verbatim>\<open>expires_in = 0\<close> saved at time 1000 is
  past \<open>saved_at + expires_in - 300\<close> at time 1000, and the client's test judges it not
  expired.
\<close>

theorem client_is_token_expired_zero_counterexample:
  "client_is_token_expired
      (Holds [''expires_in'' \<mapsto> JInt 0, saved_at_key \<mapsto> JFloat 1000]) 1000 = Inr False
   \<and> (1000::rat) \<ge> 1000 + 0 - 300"
  by (simp add: client_is_token_expired_def client_load_tokens_def dget_def saved_at_key_def)

text \<open>
  C3, amended. When either \<^verbatim>\<open>expires_in\<close> or \<^verbatim>\<open>saved_at\<close> is missing from the store (or the
  store itself is missing), the client's test judges the token not expired. With
  \<^verbatim>\<open>expires_in = e\<close> and \<^verbatim>\<open>saved_at = t\<close> both stored as numbers, it judges the token expired
  iff neither is zero and \<open>now \<ge> t + e - 300\<close>, the sum and the difference being those of
  Python: exact when \<open>e\<close> and \<open>t\<close> are both \<^verbatim>\<open>int\<close>s, and each rounded to the nearest double
  when one of them is a \<^verbatim>\<open>float\<close> (an \<^verbatim>\<open>int\<close> operand is first converted to a double, which
  is assumed to be in range). The server's test answers not expired when either key is
  missing; with \<^verbatim>\<open>int\<close> \<open>e\<close> and \<^verbatim>\<open>float\<close> \<open>t\<close> stored it judges the token expired iff
  \<open>(t + e) - now < 86400\<close>, again in Python's arithmetic.
\<close>

theorem client_is_token_expired_boundary:
  assumes "client_load_tokens f = Inr d"
  shows "(d ''expires_in'' = None \<or> d saved_at_key = None
           \<longrightarrow> client_is_token_expired f now = Inr False)
         \<and> (d ''expires_in'' = Some (JInt e) \<and> d saved_at_key = Some (JInt t)
           \<longrightarrow> client_is_token_expired f now
                 = Inr (e \<noteq> 0 \<and> t \<noteq> 0 \<and> now \<ge> of_int (t + e - 300)))
         \<and> (d ''expires_in'' = Some (JInt e) \<and> d saved_at_key = Some (JFloat x)
            \<and> \<bar>fl (of_int e)\<bar> < 2 ^ 1024
           \<longrightarrow> client_is_token_expired f now
                 = Inr (e \<noteq> 0 \<and> x \<noteq> 0 \<and> now \<ge> fl (fl (x + fl (of_int e)) - 300)))
         \<and> (d ''expires_in'' = Some (JFloat y) \<and> d saved_at_key = Some (JFloat x)
           \<longrightarrow> client_is_token_expired f now
                 = Inr (y \<noteq> 0 \<and> x \<noteq> 0 \<and> now \<ge> fl (fl (x + y) - 300)))
         \<and> (d ''expires_in'' = Some (JFloat y) \<and> d saved_at_key = Some (JInt t)
            \<and> \<bar>fl (of_int t)\<bar> < 2 ^ 1024
           \<longrightarrow> client_is_token_expired f now
                 = Inr (y \<noteq> 0 \<and> t \<noteq> 0 \<and> now \<ge> fl (fl (fl (of_int t) + y) - 300)))
         \<and> (load_tokens f = Inr d \<and> (d ''expires_in'' = None \<or> d saved_at_key = None)
           \<longrightarrow> is_token_expired f now = Inr False)
         \<and> (load_tokens f = Inr d \<and> d ''expires_in'' = Some (JInt e)
            \<and> d saved_at_key = Some (JFloat x) \<and> \<bar>fl (of_int e)\<bar> < 2 ^ 1024
           \<longrightarrow> is_token_expired f now = Inr (fl (fl (x + fl (of_int e)) - now) < 86400))"
proof (intro conjI impI)
  assume "d ''expires_in'' = None \<or> d saved_at_key = None"
  then show "client_is_token_expired f now = Inr False"
    using assms by (auto simp: client_is_token_expired_def dget_def Let_def)
next
  assume "d ''expires_in'' = Some (JInt e) \<and> d saved_at_key = Some (JInt t)"
  then show "client_is_token_expired f now
               = Inr (e \<noteq> 0 \<and> t \<noteq> 0 \<and> now \<ge> of_int (t + e - 300))"
    using assms by (auto simp: client_is_token_expired_def dget_def expiry_sum_def Let_def)
next
  assume "d ''expires_in'' = Some (JInt e) \<and> d saved_at_key = Some (JFloat x)
            \<and> \<bar>fl (of_int e)\<bar> < 2 ^ 1024"
  then show "client_is_token_expired f now
               = Inr (e \<noteq> 0 \<and> x \<noteq> 0 \<and> now \<ge> fl (fl (x + fl (of_int e)) - 300))"
    using assms
    by (auto simp: client_is_token_expired_def dget_def expiry_sum_def Let_def float_op_def
                   fl_small)
next
  assume "d ''expires_in'' = Some (JFloat y) \<and> d saved_at_key = Some (JFloat x)"
  then show "client_is_token_expired f now
               = Inr (y \<noteq> 0 \<and> x \<noteq> 0 \<and> now \<ge> fl (fl (x + y) - 300))"
    using assms
    by (auto simp: client_is_token_expired_def dget_def expiry_sum_def Let_def float_op_def
                   fl_small)
next
  assume "d ''expires_in'' = Some (JFloat y) \<and> d saved_at_key = Some (JInt t)
            \<and> \<bar>fl (of_int t)\<bar> < 2 ^ 1024"
  then show "client_is_token_expired f now
               = Inr (y \<noteq> 0 \<and> t \<noteq> 0 \<and> now \<ge> fl (fl (fl (of_int t) + y) - 300))"
    using assms
    by (auto simp: client_is_token_expired_def dget_def expiry_sum_def Let_def float_op_def
                   fl_small)
next
  assume "load_tokens f = Inr d \<and> (d ''expires_in'' = None \<or> d saved_at_key = None)"
  then show "is_token_expired f now = Inr False"
    by (auto simp: is_token_expired_def)
next
  assume "load_tokens f = Inr d \<and> d ''expires_in'' = Some (JInt e)
            \<and> d saved_at_key = Some (JFloat x) \<and> \<bar>fl (of_int e)\<bar> < 2 ^ 1024"
  then show "is_token_expired f now = Inr (fl (fl (x + fl (of_int e)) - now) < 86400)"
    by (auto simp: is_token_expired_def dget_def expiry_sum_def float_op_def)
qed

text \<open>
  Both sides of the boundary for a token of 3600 seconds saved at time 1000.0, a store without
  the two keys, and a store where the rounding of the sum decides: saved at \<open>10\<^sup>1\<^sup>6\<close> with
  \<^verbatim>\<open>expires_in = 1\<close>, the sum rounds to \<open>10\<^sup>1\<^sup>6\<close> and the token is expired at
  \<open>10\<^sup>1\<^sup>6 - 300\<close>, one second before \<open>10\<^sup>1\<^sup>6 + 1 - 300\<close>.
\<close>

theorem client_is_token_expired_boundary_witness:
  "client_is_token_expired
      (Holds [''expires_in'' \<mapsto> JInt 3600, saved_at_key \<mapsto> JFloat 1000]) 4300 = Inr True
   \<and> client_is_token_expired
      (Holds [''expires_in'' \<mapsto> JInt 3600, saved_at_key \<mapsto> JFloat 1000]) 4299 = Inr False
   \<and> client_is_token_expired (Holds [''access_token'' \<mapsto> JStr ''A'']) 4300 = Inr False
   \<and> client_is_token_expired
      (Holds [''expires_in'' \<mapsto> JInt 1, saved_at_key \<mapsto> JFloat 10000000000000000])
      9999999999999700 = Inr True"
proof -
  let ?d = "[''expires_in'' \<mapsto> JInt 3600, saved_at_key \<mapsto> JFloat 1000]"
  let ?d' = "[''access_token'' \<mapsto> JStr ''A'']"
  let ?d'' = "[''expires_in'' \<mapsto> JInt 1, saved_at_key \<mapsto> JFloat 10000000000000000]"
  have l: "client_load_tokens (Holds ?d) = Inr ?d" "client_load_tokens (Holds ?d') = Inr ?d'"
          "client_load_tokens (Holds ?d'') = Inr ?d''"
    by (simp_all add: client_load_tokens_def)
  have r: "fl 1 = 1" "fl 10000000000000001 = 10000000000000000"
          "fl 9999999999999700 = 9999999999999700"
    by code_simp+
  have b: "\<bar>fl (of_int 3600)\<bar> < (2::rat) ^ 1024" "\<bar>fl (of_int 1)\<bar> < (2::rat) ^ 1024"
    by (simp_all add: fl_small r)
  show ?thesis
    using client_is_token_expired_boundary[OF l(1), where e = 3600 and x = 1000 and now = 4300]
          client_is_token_expired_boundary[OF l(1), where e = 3600 and x = 1000 and now = 4299]
          client_is_token_expired_boundary[OF l(2), where now = 4300]
          client_is_token_expired_boundary[OF l(3), where e = 1 and x = 10000000000000000
            and now = 9999999999999700]
          b
    by (simp add: saved_at_key_def fl_small r)
qed

section \<open>Properties of the page lookup\<close>

lemma find_ig_page_step:
  assumes "wf_page p"
  shows "find_ig_page (p # ps) =
     (if truthy (ig_id_of p)
      then Inr (Some \<lparr>page_id = field p ''id'', page_access_token = field p ''access_token'',
                       instagram_user_id = ig_id_of p\<rparr>)
      else find_ig_page ps)"
proof -
  from assms obtain kvs where p: "p = JObj kvs" by (cases p) auto
  show ?thesis
  proof (cases "map_of kvs ''instagram_business_account''")
    case None
    with p show ?thesis by (simp add: ig_id_of_def)
  next
    case (Some ig)
    show ?thesis
    proof (cases "truthy ig")
      case False
      with p Some show ?thesis by (simp add: ig_id_of_def)
    next
      case True
      with assms p Some obtain ivs where ig: "ig = JObj ivs" by (cases ig) auto
      with p Some True show ?thesis
        by (simp add: ig_id_of_def field_def)
    qed
  qed
qed

lemma find_ig_page_spec:
  "list_all wf_page pages \<Longrightarrow>
   find_ig_page pages =
     Inr (case List.find (\<lambda>p. truthy (ig_id_of p)) pages of
            Some p \<Rightarrow> Some \<lparr>page_id = field p ''id'', page_access_token = field p ''access_token'',
                          instagram_user_id = ig_id_of p\<rparr>
          | None \<Rightarrow> None)"
proof (induction pages)
  case Nil
  then show ?case by simp
next
  case (Cons p ps)
  then have "wf_page p" and "list_all wf_page ps" by simp_all
  with Cons.IH show ?case
    by (simp add: find_ig_page_step del: find_ig_page.simps)
qed

lemma select_page_spec:
  assumes "list_all wf_page pages" "accounts_data ''data'' = Some (JArr pages)"
  shows "select_page accounts_data = Inr (page_lookup_spec pages)"
proof (cases pages)
  case Nil
  with assms show ?thesis by (simp add: select_page_def page_lookup_spec_def)
next
  case (Cons p ps)
  from assms(1) Cons obtain kvs where p: "p = JObj kvs"
    by (cases p) auto
  show ?thesis
    using assms(2) find_ig_page_spec[OF assms(1)] Cons p
    by (auto simp: select_page_def page_lookup_spec_def first_page_def field_def split: option.splits)
qed

lemma page_lookup_reqs:
  "reqs (snd (get_page_access_token_from_user_token http tok w)) = reqs w @ [ListPages tok]"
  by (simp add: get_page_access_token_from_user_token_def send_def split: sum.splits)

lemma page_lookup_frame:
  "disk (snd (get_page_access_token_from_user_token http tok w)) = disk w"
  "env (snd (get_page_access_token_from_user_token http tok w)) = env w"
  by (simp_all add: get_page_access_token_from_user_token_def send_def split: sum.splits)

text \<open>
  C9. Given the pages the listing endpoint returned for a user access token, the lookup
  returns the first page with a connected Instagram account, with that page's id, its access
  token and the connected Instagram id; with no connected page in a non-empty list, the
  first page with a null Instagram id; and nothing (\<^verbatim>\<open>None\<close>) when the list is empty or the
  request fails. The function has no exceptional result, and sends the one listing request.
\<close>

theorem page_lookup_selection:
  "(list_all wf_page pages \<and> http (ListPages tok) = Inr accounts_data
      \<and> accounts_data ''data'' = Some (JArr pages)
     \<longrightarrow> fst (get_page_access_token_from_user_token http tok w) = page_lookup_spec pages)
   \<and> (http (ListPages tok) = Inl e
     \<longrightarrow> fst (get_page_access_token_from_user_token http tok w) = None)
   \<and> page_lookup_spec [] = None
   \<and> reqs (snd (get_page_access_token_from_user_token http tok w)) = reqs w @ [ListPages tok]"
proof (intro conjI impI)
  assume "list_all wf_page pages \<and> http (ListPages tok) = Inr accounts_data
            \<and> accounts_data ''data'' = Some (JArr pages)"
  then show "fst (get_page_access_token_from_user_token http tok w) = page_lookup_spec pages"
    using select_page_spec[of pages accounts_data]
    by (simp add: get_page_access_token_from_user_token_def)
next
  assume "http (ListPages tok) = Inl e"
  then show "fst (get_page_access_token_from_user_token http tok w) = None"
    by (simp add: get_page_access_token_from_user_token_def)
next
  show "page_lookup_spec [] = None"
    by (simp add: page_lookup_spec_def)
next
  show "reqs (snd (get_page_access_token_from_user_token http tok w)) = reqs w @ [ListPages tok]"
    by (rule page_lookup_reqs)
qed

theorem page_lookup_selection_witness:
  "fst (get_page_access_token_from_user_token
          (\<lambda>r. Inr [''data'' \<mapsto> JArr
             [JObj [(''id'', JStr ''p1''), (''access_token'', JStr ''t1'')],
              JObj [(''id'', JStr ''p2''), (''access_token'', JStr ''t2''),
                    (''instagram_business_account'', JObj [(''id'', JStr ''ig2'')])],
              JObj [(''id'', JStr ''p3''), (''access_token'', JStr ''t3''),
                    (''instagram_business_account'', JObj [(''id'', JStr ''ig3'')])]]])
          (JStr ''U'') fresh_world)
     = Some \<lparr>page_id = JStr ''p2'', page_access_token = JStr ''t2'',
             instagram_user_id = JStr ''ig2''\<rparr>
   \<and> fst (get_page_access_token_from_user_token
          (\<lambda>r. Inr [''data'' \<mapsto> JArr
             [JObj [(''id'', JStr ''p1''), (''access_token'', JStr ''t1'')],
              JObj [(''id'', JStr ''p2''), (''access_token'', JStr ''t2'')]]])
          (JStr ''U'') fresh_world)
     = Some \<lparr>page_id = JStr ''p1'', page_access_token = JStr ''t1'', instagram_user_id = JNull\<rparr>
   \<and> fst (get_page_access_token_from_user_token
          (\<lambda>r. Inl (Exn RequestException ''503'')) (JStr ''U'') fresh_world) = None"
proof -
  let ?p1 = "JObj [(''id'', JStr ''p1''), (''access_token'', JStr ''t1'')]"
  let ?p2 = "JObj [(''id'', JStr ''p2''), (''access_token'', JStr ''t2''),
                    (''instagram_business_account'', JObj [(''id'', JStr ''ig2'')])]"
  let ?p3 = "JObj [(''id'', JStr ''p3''), (''access_token'', JStr ''t3''),
                    (''instagram_business_account'', JObj [(''id'', JStr ''ig3'')])]"
  let ?q2 = "JObj [(''id'', JStr ''p2''), (''access_token'', JStr ''t2'')]"
  show ?thesis
    using page_lookup_selection[of "[?p1, ?p2, ?p3]" "\<lambda>r. Inr [''data'' \<mapsto> JArr [?p1, ?p2, ?p3]]"
            "JStr ''U''" "[''data'' \<mapsto> JArr [?p1, ?p2, ?p3]]" fresh_world]
          page_lookup_selection[of "[?p1, ?q2]" "\<lambda>r. Inr [''data'' \<mapsto> JArr [?p1, ?q2]]"
            "JStr ''U''" "[''data'' \<mapsto> JArr [?p1, ?q2]]" fresh_world]
          page_lookup_selection[where http = "\<lambda>r. Inl (Exn RequestException ''503'')"
            and tok = "JStr ''U''" and e = "Exn RequestException ''503''" and w = fresh_world]
    by (simp add: page_lookup_spec_def ig_id_of_def field_def)
qed

section \<open>Properties of the client's resolver\<close>

lemma provider_token_spec:
  "provider_token tp = source_token tp st http nc ns ok w Provider"
proof (cases tp)
  case None
  then show ?thesis by (simp add: provider_token_def)
next
  case (Some r)
  show ?thesis
  proof (cases r)
    case (Inl e)
    with Some show ?thesis by (simp add: provider_token_def)
  next
    case (Inr creds)
    with Some show ?thesis
      by (cases creds) (auto simp: provider_token_def split: option.splits)
  qed
qed

lemma getenv_truthy:
  "truthy (getenv w k) = (env_token w k \<noteq> None)"
  "env_token w k = Some t \<Longrightarrow> getenv w k = t"
  by (auto simp: getenv_def env_token_def split: option.splits if_splits)

lemma client_store_step:
  assumes "client_is_token_expired (disk w) nc = Inr b"
      and "client_load_tokens (disk w) = Inr d"
  shows "store_token st http nc ns ok w =
     (let a = dget d ''access_token'' in
      if truthy a then
        Some (if b then
                (let n = fst (client_refresh_token st http (py_or (dget d ''refresh_token'') a) ns ok w)
                 in if truthy n then n else a)
              else a)
      else None)"
  using assms
  by (auto simp: store_token_def dget_def py_or_def Let_def split: option.splits)

lemma resolution_refines_spec:
  assumes "client_is_token_expired (disk w) nc = Inr b"
  shows "fst (client_get_access_token tp st http nc ns ok w) = resolve_spec tp st http nc ns ok w"
proof -
  obtain d where d: "client_load_tokens (disk w) = Inr d"
    using client_load_tokens_total by blast
  note st = client_store_step[OF assms d, of st http ns ok]
  show ?thesis
  proof (cases "provider_token tp")
    case (Some t)
    then show ?thesis
      using provider_token_spec[of tp st http nc ns ok w]
      by (simp add: client_get_access_token_def resolve_spec_def List.map_filter_simps)
  next
    case None
    note p = None
    then have p': "source_token tp st http nc ns ok w Provider = None"
      using provider_token_spec[of tp st http nc ns ok w] by simp
    show ?thesis
    proof (cases "env_token w ''INSTAGRAM_ACCESS_TOKEN''")
      case (Some t)
      then show ?thesis using p p' getenv_truthy[of w "''INSTAGRAM_ACCESS_TOKEN''"]
        by (simp add: client_get_access_token_def resolve_spec_def List.map_filter_simps Let_def)
    next
      case None
      note e1 = None
      show ?thesis
      proof (cases "truthy (dget d ''access_token'')")
        case True
        then show ?thesis
          using p p' e1 d assms st getenv_truthy(1)[of w "''INSTAGRAM_ACCESS_TOKEN''"]
          by (simp add: client_get_access_token_def resolve_spec_def List.map_filter_simps Let_def
                py_or_def split: prod.splits)
      next
        case False
        then show ?thesis
          using p p' e1 d assms st getenv_truthy[of w "''INSTAGRAM_ACCESS_TOKEN''"]
             getenv_truthy[of w "''INSTAGRAM_OAUTH_ACCESS_TOKEN''"]
          by (cases "env_token w ''INSTAGRAM_OAUTH_ACCESS_TOKEN''")
             (simp_all add: client_get_access_token_def resolve_spec_def List.map_filter_simps Let_def)
      qed
    qed
  qed
qed

lemma resolve_spec_error:
  "(\<exists>e. resolve_spec tp st http nc ns ok w = Inl e) =
     (source_token tp st http nc ns ok w Provider = None
      \<and> source_token tp st http nc ns ok w DirectEnv = None
      \<and> source_token tp st http nc ns ok w Store = None
      \<and> source_token tp st http nc ns ok w LegacyEnv = None)"
  by (cases "source_token tp st http nc ns ok w Provider";
      cases "source_token tp st http nc ns ok w DirectEnv";
      cases "source_token tp st http nc ns ok w Store";
      cases "source_token tp st http nc ns ok w LegacyEnv")
     (simp_all add: resolve_spec_def List.map_filter_simps del: source_token.simps)

text \<open>
  C1. For every provider state, environment, token file, platform answer and clock for which
  the expiry test gives a verdict, the client's \<^verbatim>\<open>get_access_token\<close> returns what the
  specification's order gives: the token of the first of provider, direct environment token,
  store (refreshed when expired and the refresh succeeds), legacy environment token that
  yields one; it raises exactly when none of the four yields a token, and the error then
  names the setup script; and a provider callback that raises is resolved as no provider.
\<close>

theorem resolution_precedence:
  assumes "client_is_token_expired (disk w) now_check = Inr expired"
  shows "fst (client_get_access_token tp st http now_check now_save write_ok w)
           = resolve_spec tp st http now_check now_save write_ok w
         \<and> ((\<exists>e. fst (client_get_access_token tp st http now_check now_save write_ok w) = Inl e)
             = (source_token tp st http now_check now_save write_ok w Provider = None
                \<and> source_token tp st http now_check now_save write_ok w DirectEnv = None
                \<and> source_token tp st http now_check now_save write_ok w Store = None
                \<and> source_token tp st http now_check now_save write_ok w LegacyEnv = None))
         \<and> ((\<exists>e. fst (client_get_access_token tp st http now_check now_save write_ok w) = Inl e)
             = (fst (client_get_access_token tp st http now_check now_save write_ok w)
                 = Inl (Exn RuntimeError
                     ''Missing access token. Run: uv run instagram-mcp/oauth_setup.py'')))
         \<and> client_get_access_token (Some (Inl x)) st http now_check now_save write_ok w
             = client_get_access_token None st http now_check now_save write_ok w"
proof -
  have eq: "fst (client_get_access_token tp st http now_check now_save write_ok w)
           = resolve_spec tp st http now_check now_save write_ok w"
    by (rule resolution_refines_spec[OF assms])
  have err: "(\<exists>e. resolve_spec tp st http now_check now_save write_ok w = Inl e)
      = (resolve_spec tp st http now_check now_save write_ok w
          = Inl (Exn RuntimeError ''Missing access token. Run: uv run instagram-mcp/oauth_setup.py''))"
    by (auto simp: resolve_spec_def split: list.splits)
  have prov: "client_get_access_token (Some (Inl x)) st http now_check now_save write_ok w
             = client_get_access_token None st http now_check now_save write_ok w"
    by (simp add: client_get_access_token_def provider_token_def)
  show ?thesis
    unfolding eq using resolve_spec_error[of tp st http now_check now_save write_ok w] err prov
    by simp
qed

theorem resolution_precedence_witness:
  "fst (client_get_access_token None scenario_settings scenario_platform 5000 5000 True
          scenario_world) = Inr (JStr ''B'')
   \<and> fst (client_get_access_token (Some (Inr (JObj [(''access_token'', JStr ''P'')])))
          scenario_settings scenario_platform 5000 5000 True
          (scenario_world\<lparr>env := (env scenario_world)(''INSTAGRAM_ACCESS_TOKEN'' \<mapsto> ''D'')\<rparr>))
       = Inr (JStr ''P'')
   \<and> fst (client_get_access_token None scenario_settings scenario_platform 5000 5000 True
          (fresh_world\<lparr>env := [''INSTAGRAM_OAUTH_ACCESS_TOKEN'' \<mapsto> ''L'']\<rparr>))
       = Inr (JStr ''L'')"
proof -
  have h1: "client_is_token_expired (disk scenario_world) 5000 = Inr True"
    by (simp add: client_is_token_expired_def client_load_tokens_def scenario_world_def
          scenario_store_def dget_def saved_at_key_def expiry_sum_def float_op_def fl_small)
  have h2: "client_is_token_expired
      (disk (scenario_world\<lparr>env := (env scenario_world)(''INSTAGRAM_ACCESS_TOKEN'' \<mapsto> ''D'')\<rparr>))
      5000 = Inr True"
    using h1 by simp
  have h3: "client_is_token_expired
      (disk (fresh_world\<lparr>env := [''INSTAGRAM_OAUTH_ACCESS_TOKEN'' \<mapsto> ''L'']\<rparr>)) 5000 = Inr False"
    by (simp add: client_is_token_expired_def client_load_tokens_def fresh_world_def dget_def)
  have s1: "store_token scenario_settings scenario_platform 5000 5000 True scenario_world
              = Some (JStr ''B'')"
    using h1
    by (simp add: store_token_def client_load_tokens_def scenario_world_def scenario_store_def
          client_refresh_token_def scenario_settings_def opt_truthy_def send_def
          client_save_tokens_def saved_at_key_def dget_def)
  have s3: "store_token scenario_settings scenario_platform 5000 5000 True
              (fresh_world\<lparr>env := [''INSTAGRAM_OAUTH_ACCESS_TOKEN'' \<mapsto> ''L'']\<rparr>) = None"
    by (simp add: store_token_def client_load_tokens_def fresh_world_def)
  show ?thesis
    using resolution_precedence[OF h1, of None scenario_settings scenario_platform 5000 True]
          resolution_precedence[OF h2, of "Some (Inr (JObj [(''access_token'', JStr ''P'')]))"
             scenario_settings scenario_platform 5000 True]
          resolution_precedence[OF h3, of None scenario_settings scenario_platform 5000 True]
          s1 s3
    by (simp add: resolve_spec_def List.map_filter_simps env_token_def scenario_world_def
          fresh_world_def)
qed

section \<open>Properties of refresh\<close>

lemma snd_none_on_request_exception: "snd (none_on_request_exception m) = snd m"
  by (cases m) (auto simp: none_on_request_exception_def split: sum.splits)

lemma send_frame: "disk (send r w) = disk w" "env (send r w) = env w"
  by (simp_all add: send_def)

lemma refresh_oauth2_token_disk:
  assumes "is_oauth2_enabled w"
      and "http (TokenExchange c) = Inr token_data"
      and "token_data ''access_token'' = Some new_token"
      and "load_tokens (disk w) = Inr existing"
  shows "disk (snd (refresh_oauth2_token http c now ok w)) =
     (if ok then
        Holds (merge_tokens existing
                 (refresh_tokens_to_save token_data existing new_token
                    (fst (get_page_access_token_from_user_token http new_token
                            (send (TokenExchange c) w))))
                 now)
      else disk w)"
proof -
  obtain pinfo w2 where pl:
    "get_page_access_token_from_user_token http new_token (send (TokenExchange c) w) = (pinfo, w2)"
    by (cases "get_page_access_token_from_user_token http new_token (send (TokenExchange c) w)")
  then have d2: "disk w2 = disk w"
    using page_lookup_frame(1)[of http new_token "send (TokenExchange c) w"]
    by (simp add: send_frame)
  let ?t = "refresh_tokens_to_save token_data existing new_token pinfo"
  have tail: "disk (snd (seq (save_tokens ?t now ok w2)
                            (\<lambda>_ w3. seq (set_environ ''INSTAGRAM_OAUTH_ACCESS_TOKEN'' new_token w3)
                            (\<lambda>_ w4. seq (mirror_truthy ?t ''page_access_token''
                                           ''INSTAGRAM_PAGE_ACCESS_TOKEN'' w4)
                            (\<lambda>_ w5. seq (mirror_truthy ?t ''facebook_page_id''
                                           ''FACEBOOK_PAGE_ID'' w5)
                            (\<lambda>_ w6. (Inr new_token, w6)))))))
             = disk (snd (save_tokens ?t now ok w2))"
    by (simp add: seq_frame set_environ_frame mirror_truthy_frame)
  show ?thesis
    using assms pl d2 tail save_tokens_disk[of w2 existing ?t now ok]
    by (simp add: refresh_oauth2_token_def snd_none_on_request_exception send_frame Let_def)
qed


lemma refresh_tokens_to_save_fields:
  "refresh_tokens_to_save token_data existing new_token pinfo ''access_token'' = Some new_token"
  "refresh_tokens_to_save token_data existing new_token pinfo ''expires_in'' = token_data ''expires_in''"
  "token_data ''refresh_token'' = None \<Longrightarrow>
   refresh_tokens_to_save token_data existing new_token pinfo ''refresh_token'' =
     (if truthy (dget existing ''refresh_token'') then existing ''refresh_token'' else None)"
  by (auto simp: refresh_tokens_to_save_def Let_def dget_def split: option.splits)

lemma merge_tokens_fields:
  "merge_tokens existing tokens now k =
     (if k = saved_at_key \<and> tokens ''access_token'' \<noteq> None then Some (JFloat now)
      else case tokens k of Some v \<Rightarrow> Some v | None \<Rightarrow> existing k)"
  by (auto simp: merge_tokens_overlay map_add_def split: option.splits)

lemma client_refresh_token_disk:
  assumes "opt_truthy (oauth2_client_id st)" "opt_truthy (oauth2_client_secret st)"
      and "http (TokenExchange c) = Inr token_data"
      and "token_data ''access_token'' = Some new_token"
      and "client_load_tokens (disk w) = Inr existing"
  shows "client_refresh_token st http c now ok w =
     (if ok then
        (new_token,
         (send (TokenExchange c) w)\<lparr>disk := Holds
            ((existing ++
               (let t0 = [''access_token'' \<mapsto> new_token,
                          ''expires_in'' \<mapsto> (case token_data ''expires_in'' of
                                                 None \<Rightarrow> JInt 5184000 | Some v \<Rightarrow> v)]
                in if truthy (dget existing ''refresh_token'')
                   then t0(''refresh_token'' \<mapsto> dget existing ''refresh_token'') else t0))
             (saved_at_key \<mapsto> JFloat now))\<rparr>)
      else (JNull, send (TokenExchange c) w))"
  using assms
  by (simp add: client_refresh_token_def client_save_tokens_def send_frame Let_def)




lemma load_tokens_client: "load_tokens f = Inr d \<Longrightarrow> client_load_tokens f = Inr d"
  by (cases f) (auto simp: load_tokens_def client_load_tokens_def)



section \<open>Properties of the expired-token path\<close>

lemma client_refresh_token_success:
  assumes "truthy (fst (client_refresh_token st http c now ok w))"
      and "client_load_tokens (disk w) = Inr existing"
  shows "stored_field (snd (client_refresh_token st http c now ok w)) ''access_token''
           = Some (fst (client_refresh_token st http c now ok w))
         \<and> stored_field (snd (client_refresh_token st http c now ok w)) saved_at_key
           = Some (JFloat now)"
proof -
  have conf: "opt_truthy (oauth2_client_id st)" "opt_truthy (oauth2_client_secret st)"
  proof -
    have "\<not> (\<not> opt_truthy (oauth2_client_id st) \<or> \<not> opt_truthy (oauth2_client_secret st))"
    proof
      assume "\<not> opt_truthy (oauth2_client_id st) \<or> \<not> opt_truthy (oauth2_client_secret st)"
      then have "fst (client_refresh_token st http c now ok w) = JNull"
        by (simp add: client_refresh_token_def)
      with assms(1) show False by simp
    qed
    then show "opt_truthy (oauth2_client_id st)" "opt_truthy (oauth2_client_secret st)"
      by simp_all
  qed
  obtain td where td: "http (TokenExchange c) = Inr td"
  proof (cases "http (TokenExchange c)")
    case (Inl e)
    with conf have "fst (client_refresh_token st http c now ok w) = JNull"
      by (simp add: client_refresh_token_def Let_def)
    with assms(1) show ?thesis by simp
  next
    case (Inr td)
    then show ?thesis by (rule that)
  qed
  obtain n where n: "td ''access_token'' = Some n"
  proof (cases "td ''access_token''")
    case None
    with conf td have "fst (client_refresh_token st http c now ok w) = JNull"
      by (simp add: client_refresh_token_def Let_def)
    with assms(1) show ?thesis by simp
  next
    case (Some n)
    then show ?thesis by (rule that)
  qed
  note r = client_refresh_token_disk[where http=http and c=c and now=now and ok=ok,
             OF conf td n assms(2)]
  have ok using assms(1) r by (cases ok) auto
  with r show ?thesis
    by (auto simp: stored_field_def saved_at_key_def map_add_def Let_def)
qed

lemma client_refresh_token_reqs:
  assumes "opt_truthy (oauth2_client_id st)" "opt_truthy (oauth2_client_secret st)"
  shows "reqs (snd (client_refresh_token st http c now ok w)) = reqs w @ [TokenExchange c]"
proof -
  have s: "reqs (send r w) = reqs w @ [r]" for r by (simp add: send_def)
  have cs: "reqs (snd (client_save_tokens t now ok w')) = reqs w'" for t w'
    by (cases "client_load_tokens (disk w')")
       (auto simp: client_save_tokens_def)
  obtain d where d: "client_load_tokens (disk (send (TokenExchange c) w)) = Inr d"
    using client_load_tokens_total by blast
  show ?thesis
  proof (cases "http (TokenExchange c)")
    case (Inl e)
    with assms show ?thesis by (simp add: client_refresh_token_def s Let_def)
  next
    case (Inr td)
    show ?thesis
    proof (cases "td ''access_token''")
      case None
      with assms Inr show ?thesis by (simp add: client_refresh_token_def s Let_def)
    next
      case (Some n)
      have "reqs (snd (case client_save_tokens t now ok w' of
                         (Inl e, w2) \<Rightarrow> (JNull, w2) | (Inr u, w2) \<Rightarrow> (n, w2))) = reqs w'" for t w'
        using cs[of t w'] by (auto split: prod.splits sum.splits)
      with assms Inr Some d show ?thesis
        by (simp add: client_refresh_token_def s Let_def)
    qed
  qed
qed

lemma refresh_oauth2_token_success:
  assumes "refresh_oauth2_token http c now ok w = (Inr n, w1)" "truthy n"
      and "load_tokens (disk w) = Inr existing"
  shows "disk w1 = (if ok then
             Holds (merge_tokens existing
                 (refresh_tokens_to_save (projr (http (TokenExchange c))) existing n
                    (fst (get_page_access_token_from_user_token http n
                            (send (TokenExchange c) w))))
                 now)
           else disk w)"
proof -
  have en: "is_oauth2_enabled w"
  proof (rule ccontr)
    assume "\<not> is_oauth2_enabled w"
    with assms(1) have "n = JNull" by (simp add: refresh_oauth2_token_def)
    with assms(2) show False by simp
  qed
  obtain td where td: "http (TokenExchange c) = Inr td"
  proof (cases "http (TokenExchange c)")
    case (Inl e)
    with en have "refresh_oauth2_token http c now ok w =
        (if is_request_exception (exn_class_of e) then Inr JNull else Inl e, send (TokenExchange c) w)"
      by (simp add: refresh_oauth2_token_def none_on_request_exception_def Let_def)
    with assms(1,2) show ?thesis by (auto split: if_splits)
  next
    case (Inr td)
    then show ?thesis by (rule that)
  qed
  obtain m where m: "td ''access_token'' = Some m"
  proof (cases "td ''access_token''")
    case None
    with en td have "refresh_oauth2_token http c now ok w = (Inr JNull, send (TokenExchange c) w)"
      by (simp add: refresh_oauth2_token_def none_on_request_exception_def Let_def)
    with assms(1,2) show ?thesis by auto
  next
    case (Some m)
    then show ?thesis by (rule that)
  qed
  have shape: "(case seq m0 f of (Inl e, w') \<Rightarrow> True | (Inr v, w') \<Rightarrow> P v)"
    if "\<And>x w'. case f x w' of (Inl e, w'') \<Rightarrow> True | (Inr v, w'') \<Rightarrow> P v"
    for m0 :: "unit res \<times> world" and f :: "unit \<Rightarrow> world \<Rightarrow> json res \<times> world" and P
    using that by (cases m0) (auto simp: seq_def split: sum.splits)
  have "case fst (refresh_oauth2_token http c now ok w) of Inl e \<Rightarrow> True
        | Inr v \<Rightarrow> v = m \<or> v = JNull"
  proof -
    obtain pinfo w2 where pl:
      "get_page_access_token_from_user_token http m (send (TokenExchange c) w) = (pinfo, w2)"
      by (cases "get_page_access_token_from_user_token http m (send (TokenExchange c) w)")
    let ?t = "refresh_tokens_to_save td existing m pinfo"
    have "case seq (save_tokens ?t now ok w2)
                 (\<lambda>_ w3. seq (set_environ ''INSTAGRAM_OAUTH_ACCESS_TOKEN'' m w3)
                 (\<lambda>_ w4. seq (mirror_truthy ?t ''page_access_token''
                                ''INSTAGRAM_PAGE_ACCESS_TOKEN'' w4)
                 (\<lambda>_ w5. seq (mirror_truthy ?t ''facebook_page_id'' ''FACEBOOK_PAGE_ID'' w5)
                 (\<lambda>_ w6. (Inr m, w6))))) of
            (Inl e, w') \<Rightarrow> True | (Inr v, w') \<Rightarrow> v = m"
      by (intro shape) simp
    then show ?thesis
      using en td m assms(3) pl
      by (auto simp: refresh_oauth2_token_def none_on_request_exception_def Let_def send_frame
               split: prod.splits sum.splits if_splits)
  qed
  with assms(1,2) have "m = n" by auto
  with refresh_oauth2_token_disk[where http=http and c=c and now=now and ok=ok,
         OF en td m assms(3)] assms(1) td
  show ?thesis by simp
qed


lemma try_refresh_success:
  assumes "fst (try_refresh http c now ok w) = Some n" and "load_tokens (disk w) = Inr existing"
      and ok
  shows "stored_field (snd (try_refresh http c now ok w)) ''access_token'' = Some n
         \<and> stored_field (snd (try_refresh http c now ok w)) saved_at_key = Some (JFloat now)"
proof -
  obtain r w1 where r: "refresh_oauth2_token http c now ok w = (r, w1)"
    by (cases "refresh_oauth2_token http c now ok w")
  with assms(1) have rn: "r = Inr n" "truthy n"
    by (cases r; auto simp: try_refresh_def split: if_splits)+
  from r rn have w1: "snd (try_refresh http c now ok w) = w1"
    by (simp add: try_refresh_def)
  show ?thesis
    using refresh_oauth2_token_success[OF r[unfolded rn(1)] rn(2) assms(2)] assms(3)
    unfolding w1
    by (simp add: stored_field_def merge_tokens_fields refresh_tokens_to_save_fields
          saved_at_key_def)
qed

text \<open>
  C4. The claim is that a resolver finding the stored token expired attempts the refresh
  with the stored \<^verbatim>\<open>refresh_token\<close> or, when that is absent, with the stored \<^verbatim>\<open>access_token\<close>
  itself, and returns the new token. The server's resolver misses the second credential: in
  the scenario of the specification (the store holds the expired token \<open>A\<close> and no
  \<^verbatim>\<open>refresh_token\<close>, the OAuth client is configured, the token endpoint would answer the
  exchange of \<open>A\<close> with token \<open>B\<close>) it sends no request and returns the stale token \<open>A\<close>.
\<close>

theorem server_resolver_returns_stale_token:
  "is_token_expired (disk scenario_world) 5000 = Inr True
   \<and> fst (get_access_token scenario_platform 5000 5000 True scenario_world) = Inr (JStr ''A'')
   \<and> reqs (snd (get_access_token scenario_platform 5000 5000 True scenario_world)) = []
   \<and> scenario_platform (TokenExchange (JStr ''A''))
       = Inr [''access_token'' \<mapsto> JStr ''B'', ''expires_in'' \<mapsto> JInt 5184000]"
  by (simp add: is_token_expired_def load_tokens_def get_access_token_def scenario_world_def
        scenario_store_def saved_at_key_def dget_def expiry_sum_def float_op_def fl_small getenv_def py_or_def
        Let_def)

text \<open>
  What the two resolvers do with a stored token judged expired, the direct environment token
  being unset and the store holding a truthy \<^verbatim>\<open>access_token\<close> \<open>a\<close>. The client's resolver
  (without a provider token) runs the refresh protocol with the stored \<^verbatim>\<open>refresh_token\<close> or,
  when that is absent or empty, with \<open>a\<close> itself (with the OAuth client configured this sends
  exactly the one token exchange carrying that credential); when the refresh returns a token,
  the resolver returns it and the store afterwards holds it as \<^verbatim>\<open>access_token\<close> with
  \<^verbatim>\<open>saved_at\<close> the time of the save; otherwise it returns \<open>a\<close>. The server's resolver takes as
  credential the stored \<^verbatim>\<open>refresh_token\<close> or else the environment's
  \<^verbatim>\<open>INSTAGRAM_OAUTH_REFRESH_TOKEN\<close>, and attempts the refresh only when that credential is
  non-empty and OAuth2 is enabled.
\<close>

lemma resolvers_on_expired_token:
  assumes "env_token w ''INSTAGRAM_ACCESS_TOKEN'' = None"
      and "load_tokens (disk w) = Inr d"
      and "truthy (dget d ''access_token'')"
  shows "(provider_token tp = None \<and> client_is_token_expired (disk w) now_check = Inr True \<longrightarrow>
           (let a = dget d ''access_token'';
                cred = py_or (dget d ''refresh_token'') a;
                r = client_refresh_token st http cred now_save ok w
            in client_get_access_token tp st http now_check now_save ok w
                 = (Inr (if truthy (fst r) then fst r else a), snd r)
               \<and> (opt_truthy (oauth2_client_id st) \<and> opt_truthy (oauth2_client_secret st)
                    \<longrightarrow> reqs (snd r) = reqs w @ [TokenExchange cred])
               \<and> (truthy (fst r) \<longrightarrow>
                    stored_field (snd r) ''access_token'' = Some (fst r)
                    \<and> stored_field (snd r) saved_at_key = Some (JFloat now_save))))
       \<and> (is_token_expired (disk w) now_check = Inr True \<longrightarrow>
           (let a = dget d ''access_token'';
                cred = py_or (dget d ''refresh_token'') (getenv w ''INSTAGRAM_OAUTH_REFRESH_TOKEN'');
                tr = try_refresh http cred now_save ok w
            in get_access_token http now_check now_save ok w
                 = (if truthy cred \<and> is_oauth2_enabled w
                    then (Inr (case fst tr of Some n \<Rightarrow> n | None \<Rightarrow> a), snd tr)
                    else (Inr a, w))
               \<and> (truthy cred \<and> is_oauth2_enabled w \<and> fst tr \<noteq> None \<and> ok \<longrightarrow>
                    stored_field (snd tr) ''access_token'' = fst tr
                    \<and> stored_field (snd tr) saved_at_key = Some (JFloat now_save))))"
proof (intro conjI impI)
  assume h: "provider_token tp = None \<and> client_is_token_expired (disk w) now_check = Inr True"
  let ?a = "dget d ''access_token''"
  let ?cred = "py_or (dget d ''refresh_token'') ?a"
  let ?r = "client_refresh_token st http ?cred now_save ok w"
  have cl: "client_load_tokens (disk w) = Inr d"
    using assms(2) by (rule load_tokens_client)
  have direct: "\<not> truthy (getenv w ''INSTAGRAM_ACCESS_TOKEN'')"
    using assms(1) getenv_truthy(1)[of w "''INSTAGRAM_ACCESS_TOKEN''"] by simp
  have cred: "truthy ?cred"
    using assms(3) by (simp add: py_or_def)
  have res: "client_get_access_token tp st http now_check now_save ok w
               = (Inr (if truthy (fst ?r) then fst ?r else ?a), snd ?r)"
    using h cl direct cred assms(3)
    by (simp add: client_get_access_token_def Let_def split: prod.splits)
  have rq: "opt_truthy (oauth2_client_id st) \<and> opt_truthy (oauth2_client_secret st)
              \<longrightarrow> reqs (snd ?r) = reqs w @ [TokenExchange ?cred]"
    using client_refresh_token_reqs[of st http ?cred now_save ok w] by simp
  have st: "truthy (fst ?r) \<longrightarrow>
              stored_field (snd ?r) ''access_token'' = Some (fst ?r)
              \<and> stored_field (snd ?r) saved_at_key = Some (JFloat now_save)"
    using client_refresh_token_success[of st http ?cred now_save ok w d, OF _ cl] by simp
  show "let a = dget d ''access_token'';
            cred = py_or (dget d ''refresh_token'') a;
            r = client_refresh_token st http cred now_save ok w
        in client_get_access_token tp st http now_check now_save ok w
             = (Inr (if truthy (fst r) then fst r else a), snd r)
           \<and> (opt_truthy (oauth2_client_id st) \<and> opt_truthy (oauth2_client_secret st)
                \<longrightarrow> reqs (snd r) = reqs w @ [TokenExchange cred])
           \<and> (truthy (fst r) \<longrightarrow>
                stored_field (snd r) ''access_token'' = Some (fst r)
                \<and> stored_field (snd r) saved_at_key = Some (JFloat now_save))"
    unfolding Let_def using res rq st by blast
next
  assume h: "is_token_expired (disk w) now_check = Inr True"
  let ?a = "dget d ''access_token''"
  let ?cred = "py_or (dget d ''refresh_token'') (getenv w ''INSTAGRAM_OAUTH_REFRESH_TOKEN'')"
  let ?tr = "try_refresh http ?cred now_save ok w"
  have direct: "\<not> truthy (getenv w ''INSTAGRAM_ACCESS_TOKEN'')"
    using assms(1) getenv_truthy(1)[of w "''INSTAGRAM_ACCESS_TOKEN''"] by simp
  have res: "get_access_token http now_check now_save ok w
                 = (if truthy ?cred \<and> is_oauth2_enabled w
                    then (Inr (case fst ?tr of Some n \<Rightarrow> n | None \<Rightarrow> ?a), snd ?tr)
                    else (Inr ?a, w))"
    using h direct assms(2,3)
    by (cases ?tr; cases "fst ?tr") (auto simp: get_access_token_def Let_def)
  have st: "truthy ?cred \<and> is_oauth2_enabled w \<and> fst ?tr \<noteq> None \<and> ok \<longrightarrow>
              stored_field (snd ?tr) ''access_token'' = fst ?tr
              \<and> stored_field (snd ?tr) saved_at_key = Some (JFloat now_save)"
    using try_refresh_success[of http ?cred now_save ok w _ d, OF _ assms(2)] by auto
  show "let a = dget d ''access_token'';
            cred = py_or (dget d ''refresh_token'') (getenv w ''INSTAGRAM_OAUTH_REFRESH_TOKEN'');
            tr = try_refresh http cred now_save ok w
        in get_access_token http now_check now_save ok w
             = (if truthy cred \<and> is_oauth2_enabled w
                then (Inr (case fst tr of Some n \<Rightarrow> n | None \<Rightarrow> a), snd tr)
                else (Inr a, w))
           \<and> (truthy cred \<and> is_oauth2_enabled w \<and> fst tr \<noteq> None \<and> ok \<longrightarrow>
                stored_field (snd tr) ''access_token'' = fst tr
                \<and> stored_field (snd tr) saved_at_key = Some (JFloat now_save))"
    unfolding Let_def using res st by blast
qed


lemma resolvers_on_expired_token_scenario:
  "client_is_token_expired (disk scenario_world) 5000 = Inr True
   \<and> fst (client_get_access_token None scenario_settings scenario_platform 5000 5000 True
            scenario_world) = Inr (JStr ''B'')
   \<and> reqs (snd (client_get_access_token None scenario_settings scenario_platform 5000 5000 True
            scenario_world)) = [TokenExchange (JStr ''A'')]
   \<and> stored_field (snd (client_get_access_token None scenario_settings scenario_platform 5000
            5000 True scenario_world)) ''access_token'' = Some (JStr ''B'')
   \<and> stored_field (snd (client_get_access_token None scenario_settings scenario_platform 5000
            5000 True scenario_world)) saved_at_key = Some (JFloat 5000)
   \<and> fst (client_get_access_token None scenario_settings (\<lambda>r. Inl (Exn Timeout ''timed out''))
            5000 5000 True scenario_world) = Inr (JStr ''A'')
   \<and> fst (get_access_token scenario_platform 5000 5000 True
            (scenario_world\<lparr>env := (env scenario_world)
               (''INSTAGRAM_OAUTH_REFRESH_TOKEN'' \<mapsto> ''R'')\<rparr>)) = Inr (JStr ''B'')
   \<and> fst (get_access_token (\<lambda>r. Inl (Exn Timeout ''timed out'')) 5000 5000 True
            (scenario_world\<lparr>env := (env scenario_world)
               (''INSTAGRAM_OAUTH_REFRESH_TOKEN'' \<mapsto> ''R'')\<rparr>)) = Inr (JStr ''A'')"
proof -
  let ?w' = "scenario_world\<lparr>env := (env scenario_world)
               (''INSTAGRAM_OAUTH_REFRESH_TOKEN'' \<mapsto> ''R'')\<rparr>"
  let ?down = "\<lambda>r::request. (Inl (Exn Timeout ''timed out'') :: dict res)"
  have e1: "env_token scenario_world ''INSTAGRAM_ACCESS_TOKEN'' = None"
           "env_token ?w' ''INSTAGRAM_ACCESS_TOKEN'' = None"
    by (simp_all add: env_token_def scenario_world_def)
  have l: "load_tokens (disk scenario_world) = Inr scenario_store"
          "load_tokens (disk ?w') = Inr scenario_store"
    by (simp_all add: load_tokens_def scenario_world_def)
  have a: "truthy (dget scenario_store ''access_token'')"
    by (simp add: dget_def scenario_store_def)
  have x1: "client_is_token_expired (disk scenario_world) 5000 = Inr True"
    by (simp add: client_is_token_expired_def client_load_tokens_def scenario_world_def
          scenario_store_def dget_def saved_at_key_def expiry_sum_def float_op_def fl_small)
  have x2: "is_token_expired (disk ?w') 5000 = Inr True"
    by (simp add: is_token_expired_def load_tokens_def scenario_world_def
          scenario_store_def dget_def saved_at_key_def expiry_sum_def float_op_def fl_small)
  have conf: "opt_truthy (oauth2_client_id scenario_settings)"
             "opt_truthy (oauth2_client_secret scenario_settings)"
    by (simp_all add: scenario_settings_def opt_truthy_def)
  have rq: "reqs scenario_world = []"
    by (simp add: scenario_world_def)
  have p: "provider_token None = None"
    by (simp add: provider_token_def)
  have en: "is_oauth2_enabled ?w'"
    by (simp add: is_oauth2_enabled_def scenario_world_def env_truthy_def)
  have r1: "fst (client_refresh_token scenario_settings scenario_platform (JStr ''A'') 5000 True
                   scenario_world) = JStr ''B''"
    by (simp add: client_refresh_token_def scenario_settings_def opt_truthy_def
          client_load_tokens_def scenario_world_def send_def client_save_tokens_def Let_def)
  have r2: "fst (client_refresh_token scenario_settings ?down (JStr ''A'') 5000 True
                   scenario_world) = JNull"
    by (simp add: client_refresh_token_def scenario_settings_def opt_truthy_def Let_def)
  have t1: "fst (try_refresh scenario_platform (JStr ''R'') 5000 True ?w') = Some (JStr ''B'')"
    by (simp add: try_refresh_def refresh_oauth2_token_def is_oauth2_enabled_def env_truthy_def
          none_on_request_exception_def load_tokens_def scenario_world_def send_def Let_def
          get_page_access_token_from_user_token_def select_page_def
          refresh_tokens_to_save_def save_tokens_def swallow_io_def seq_def mirror_def
          set_environ_def mirror_truthy_def dget_def scenario_store_def saved_at_key_def)
  have t2: "fst (try_refresh ?down (JStr ''R'') 5000 True ?w') = None"
    by (simp add: try_refresh_def refresh_oauth2_token_def en none_on_request_exception_def
          Let_def)
  have av: "dget scenario_store ''access_token'' = JStr ''A''"
           "dget scenario_store ''refresh_token'' = JNull"
           "getenv ?w' ''INSTAGRAM_OAUTH_REFRESH_TOKEN'' = JStr ''R''"
    by (simp_all add: dget_def scenario_store_def saved_at_key_def getenv_def)
  let ?r = "client_refresh_token scenario_settings scenario_platform (JStr ''A'') 5000 True
              scenario_world"
  have C1: "client_get_access_token None scenario_settings scenario_platform 5000 5000 True
              scenario_world = (Inr (JStr ''B''), snd ?r)
            \<and> reqs (snd ?r) = [TokenExchange (JStr ''A'')]
            \<and> stored_field (snd ?r) ''access_token'' = Some (JStr ''B'')
            \<and> stored_field (snd ?r) saved_at_key = Some (JFloat 5000)"
    using resolvers_on_expired_token[OF e1(1) l(1) a, of None 5000 scenario_settings scenario_platform
            5000 True] x1 p conf rq
    by (simp add: Let_def av py_or_def r1)
  have C2: "fst (client_get_access_token None scenario_settings ?down 5000 5000 True
              scenario_world) = Inr (JStr ''A'')"
    using resolvers_on_expired_token[OF e1(1) l(1) a, of None 5000 scenario_settings ?down 5000 True]
          x1 p
    by (simp add: Let_def av py_or_def r2)
  have S1: "fst (get_access_token scenario_platform 5000 5000 True ?w') = Inr (JStr ''B'')"
    using resolvers_on_expired_token[OF e1(2) l(2) a, of None 5000 scenario_settings scenario_platform
            5000 True] x2 en
    by (simp add: Let_def av py_or_def t1)
  have S2: "fst (get_access_token ?down 5000 5000 True ?w') = Inr (JStr ''A'')"
    using resolvers_on_expired_token[OF e1(2) l(2) a, of None 5000 scenario_settings ?down 5000 True]
          x2 en
    by (simp add: Let_def av py_or_def t2)
  show ?thesis
    using C1 C2 S1 S2 x1 by simp
qed

section \<open>Properties of the code exchange\<close>

lemma set_environ_str: "fst (set_environ k (JStr s) w) = Inr ()"
  by (simp add: set_environ_def)

lemma mirror_ok: "str_or_absent (tokens k) \<Longrightarrow> fst (mirror tokens k var w) = Inr ()"
  by (cases "tokens k" rule: str_or_absent.cases) (simp_all add: mirror_def set_environ_def)

lemma seq_ok:
  assumes "fst m = Inr ()" and "\<And>w'. fst (f () w') = Inr y"
  shows "fst (seq m f) = Inr y"
  using assms by (cases m) (simp add: seq_def)

lemma save_tokens_ok:
  assumes "load_tokens (disk w) = Inr existing"
      and "str_or_absent (tokens ''access_token'')" "str_or_absent (tokens ''refresh_token'')"
      and "str_or_absent (tokens ''page_access_token'')" "str_or_absent (tokens ''facebook_page_id'')"
  shows "fst (save_tokens tokens now ok w) = Inr ()"
proof (cases ok)
  case False
  with assms(1) show ?thesis by (simp add: save_tokens_def swallow_io_def)
next
  case True
  have "fst (seq (mirror tokens ''access_token'' ''INSTAGRAM_OAUTH_ACCESS_TOKEN'' w0)
          (\<lambda>_ w1. seq (mirror tokens ''refresh_token'' ''INSTAGRAM_OAUTH_REFRESH_TOKEN'' w1)
          (\<lambda>_ w2. seq (mirror tokens ''page_access_token'' ''INSTAGRAM_PAGE_ACCESS_TOKEN'' w2)
          (\<lambda>_ w3. mirror tokens ''facebook_page_id'' ''FACEBOOK_PAGE_ID'' w3)))) = Inr ()" for w0
    by (intro seq_ok mirror_ok assms)
  moreover have "fst (swallow_io m) = Inr ()" if "fst m = Inr ()" for m
    using that by (cases m) (simp add: swallow_io_def)
  ultimately show ?thesis
    using True assms(1) by (simp add: save_tokens_def)
qed

lemma long_lived_step_fallback:
  assumes "truthy (dget token_data ''access_token'')"
      and "http (TokenExchange (dget token_data ''access_token'')) = Inl e"
  shows "long_lived_step http token_data w =
     ((case token_data ''expires_in'' of
         None \<Rightarrow> token_data(''expires_in'' \<mapsto> JInt 3600)
       | Some x \<Rightarrow> token_data),
      send (TokenExchange (dget token_data ''access_token'')) w)"
  using assms by (simp add: long_lived_step_def Let_def)

text \<open>
  C7, as the claim states it, fails: when the code exchange answers with the short-lived
  token \<open>S\<close> and \<^verbatim>\<open>expires_in = 7200\<close> and the long-lived exchange fails, the exchange returns
  \<open>S\<close> with \<^verbatim>\<open>expires_in = 7200\<close>, not 3600.
\<close>

theorem exchange_keeps_expires_in_counterexample:
  "fst (exchange_oauth2_code short_only_platform ''code'' 5000 True 5000 True scenario_world)
     = Inr [''access_token'' \<mapsto> JStr ''S'', ''expires_in'' \<mapsto> JInt 7200]
   \<and> short_only_platform (TokenExchange (JStr ''S'')) = Inl (Exn RequestException ''500 Server Error'')"
  by (simp add: exchange_oauth2_code_def is_oauth2_enabled_def env_truthy_def scenario_world_def
        exchange_failed_def long_lived_step_def dget_def Let_def seq_def mirror_def
        set_environ_def send_def save_tokens_def load_tokens_def swallow_io_def
        restrict_map_def)

text \<open>
  C7, amended. With OAuth2 configured, a code exchange that answers with a non-empty string
  \<^verbatim>\<open>access_token\<close> (and a \<^verbatim>\<open>refresh_token\<close> that is a string when present), and a readable
  or absent token file: when the long-lived exchange fails, the operation does not fail; it
  returns the first answer with its short-lived \<^verbatim>\<open>access_token\<close>, and with
  \<^verbatim>\<open>expires_in = 3600\<close> when the first answer had no \<^verbatim>\<open>expires_in\<close> (the first answer's own
  \<^verbatim>\<open>expires_in\<close> is kept otherwise).
\<close>

theorem exchange_long_lived_fallback:
  assumes "is_oauth2_enabled w"
      and "http (CodeExchange code) = Inr first_response"
      and "first_response ''access_token'' = Some (JStr s)" and "s \<noteq> []"
      and "str_or_absent (first_response ''refresh_token'')"
      and "http (TokenExchange (JStr s)) = Inl e"
      and "disk w \<noteq> Undecodable"
  shows "fst (exchange_oauth2_code http code now1 ok1 now2 ok2 w) =
           Inr (case first_response ''expires_in'' of
                  None \<Rightarrow> first_response(''expires_in'' \<mapsto> JInt 3600)
                | Some x \<Rightarrow> first_response)"
proof -
  let ?td = "case first_response ''expires_in'' of
               None \<Rightarrow> first_response(''expires_in'' \<mapsto> JInt 3600)
             | Some x \<Rightarrow> first_response"
  let ?w1 = "send (TokenExchange (JStr s)) (send (CodeExchange code) w)"
  have a: "dget first_response ''access_token'' = JStr s"
    using assms(3) by (simp add: dget_def)
  have ll: "long_lived_step http first_response (send (CodeExchange code) w) = (?td, ?w1)"
    using long_lived_step_fallback[of first_response http e "send (CodeExchange code) w"]
          assms(4,6) a by simp
  have td: "?td ''access_token'' = Some (JStr s)" "?td ''refresh_token'' = first_response ''refresh_token''"
    using assms(3) by (auto split: option.splits)
  obtain existing where ex: "load_tokens (disk w) = Inr existing"
    using assms(7) by (cases "disk w") (auto simp: load_tokens_def)
  let ?ts = "?td |` {''access_token'', ''refresh_token'', ''expires_in''}"
  have sv: "fst (save_tokens ?ts now1 ok1 w') = Inr ()" if "disk w' = disk w" for w'
    using ex that td assms(5)
    by (intro save_tokens_ok[of w' existing]) (simp_all add: restrict_map_def)
  have m1: "fst (mirror ?td ''access_token'' ''INSTAGRAM_OAUTH_ACCESS_TOKEN'' ?w1) = Inr ()"
    using td by (intro mirror_ok) simp
  have m2: "fst (mirror ?td ''refresh_token'' ''INSTAGRAM_OAUTH_REFRESH_TOKEN'' w') = Inr ()" for w'
    using td assms(5) by (intro mirror_ok) simp
  obtain w2 where w2: "mirror ?td ''access_token'' ''INSTAGRAM_OAUTH_ACCESS_TOKEN'' ?w1 = (Inr (), w2)"
    using m1 by (cases "mirror ?td ''access_token'' ''INSTAGRAM_OAUTH_ACCESS_TOKEN'' ?w1") simp
  obtain w3 where w3: "mirror ?td ''refresh_token'' ''INSTAGRAM_OAUTH_REFRESH_TOKEN'' w2 = (Inr (), w3)"
    using m2[of w2] by (cases "mirror ?td ''refresh_token'' ''INSTAGRAM_OAUTH_REFRESH_TOKEN'' w2") simp
  have d3: "disk w3 = disk w"
    using mirror_frame(1)[of ?td "''access_token''" "''INSTAGRAM_OAUTH_ACCESS_TOKEN''" ?w1]
          mirror_frame(1)[of ?td "''refresh_token''" "''INSTAGRAM_OAUTH_REFRESH_TOKEN''" w2]
          w2 w3 by (simp add: send_frame)
  obtain w4 where w4: "save_tokens ?ts now1 ok1 w3 = (Inr (), w4)"
    using sv[OF d3] by (cases "save_tokens ?ts now1 ok1 w3") simp
  show ?thesis
    using assms(1,2) ll td(1) w2 w3 w4
    by (simp add: exchange_oauth2_code_def exchange_failed_def seq_def Let_def)
qed


theorem exchange_long_lived_fallback_witness:
  "fst (exchange_oauth2_code
          (\<lambda>r. case r of
                  CodeExchange c \<Rightarrow> Inr [''access_token'' \<mapsto> JStr ''S'']
                | TokenExchange c \<Rightarrow> Inl (Exn RequestException ''500 Server Error'')
                | ListPages t \<Rightarrow> Inr [''data'' \<mapsto> JArr []])
          ''code'' 5000 True 5000 True scenario_world)
     = Inr [''access_token'' \<mapsto> JStr ''S'', ''expires_in'' \<mapsto> JInt 3600]
   \<and> fst (exchange_oauth2_code short_only_platform ''code'' 5000 True 5000 True scenario_world)
     = Inr [''access_token'' \<mapsto> JStr ''S'', ''expires_in'' \<mapsto> JInt 7200]"
proof -
  let ?http = "\<lambda>r. case r of
                  CodeExchange c \<Rightarrow> Inr [''access_token'' \<mapsto> JStr ''S'']
                | TokenExchange c \<Rightarrow> Inl (Exn RequestException ''500 Server Error'')
                | ListPages t \<Rightarrow> Inr [''data'' \<mapsto> JArr []]"
  have en: "is_oauth2_enabled scenario_world"
    by (simp add: is_oauth2_enabled_def scenario_world_def env_truthy_def)
  have d: "disk scenario_world \<noteq> Undecodable"
    by (simp add: scenario_world_def)
  show ?thesis
    using exchange_long_lived_fallback[where http = ?http and code = "''code''"
            and first_response = "[''access_token'' \<mapsto> JStr ''S'']" and s = "''S''"
            and e = "Exn RequestException ''500 Server Error''" and w = scenario_world
            and ?now1.0 = 5000 and ?ok1.0 = True and ?now2.0 = 5000 and ?ok2.0 = True, OF en _ _ _ _ _ d]
          exchange_long_lived_fallback[where http = short_only_platform and code = "''code''"
            and first_response = "[''access_token'' \<mapsto> JStr ''S'', ''expires_in'' \<mapsto> JInt 7200]"
            and s = "''S''"
            and e = "Exn RequestException ''500 Server Error''" and w = scenario_world
            and ?now1.0 = 5000 and ?ok1.0 = True and ?now2.0 = 5000 and ?ok2.0 = True, OF en _ _ _ _ _ d]
    by simp
qed

section \<open>Properties of the pollers\<close>

lemma request_step:
  obtains ver w1 where
    "with_version v (make_api_request p r) w = (p (calls w) (ver, r), w1)"
    "calls w1 = calls w @ [(ver, r)]" "reads w1 = reads w" "sleeps w1 = sleeps w"
  by (cases "given v") (auto simp: with_version_def make_api_request_def Let_def)

lemma scripted_status:
  "scripted script later other h (ver, GetStatus c) =
     (if length (filter is_status_call h) < length script
      then script ! length (filter is_status_call h) else later)"
  by (simp add: scripted_def Let_def)

lemma scripted_other:
  "\<not> is_status_call call \<Longrightarrow> scripted script later other h call = other"
  by (simp add: scripted_def)

lemma jget_status: "jget (JObj [(''status_code'', JStr s)]) ''status_code'' = Inr (JStr s)"
  by simp

text \<open>One attempt of the fixed-attempts loop, by the status the platform reports.\<close>

lemma create_post_poll_step:
  assumes "0 \<le> d" "p (calls w) (ver, GetStatus c) = status_answer s"
      and "with_version v (make_api_request p (GetStatus c)) w = (p (calls w) (ver, GetStatus c), w1)"
  shows "create_post_poll p v c d (Suc n) w =
     (if s = ''FINISHED'' then (Inr None, w1)
      else if s = ''ERROR'' then (Inr (Some (failure ''Media container processing failed'')), w1)
      else if 0 < n then create_post_poll p v c (min (fl (d * (3 / 2))) 10) n (slept d w1)
      else create_post_poll p v c d n w1)"
  using assms by (simp add: status_answer_def sleep_def)

lemma publish_poll_step:
  assumes "0 \<le> poll_interval" "p (calls w0) (ver, GetStatus c) = status_answer s"
      and "time_now clock w = (now, w0)"
      and "with_version v (make_api_request p (GetStatus c)) w0 = (p (calls w0) (ver, GetStatus c), w1)"
  shows "publish_poll p clock v c max_wait poll_interval start (Suc n) w =
     (if fl (now - start) \<ge> of_int max_wait then (Inr (Some (wait_timeout max_wait)), w0)
      else if s = ''FINISHED'' then (Inr None, w1)
      else if s = ''ERROR'' then (Inr (Some container_error), w1)
      else publish_poll p clock v c max_wait poll_interval start n
             (if 0 < n then slept (of_int poll_interval) w1 else w1))"
  using assms by (simp add: status_answer_def sleep_def)

lemma sleep_frame: "calls (slept d w) = calls w" "reads (slept d w) = reads w"
  by (simp_all add: slept_def)

lemma fl_delays: "fl 0 = 0" "fl (9 / 2) = 9 / 2" "fl (27 / 4) = 27 / 4"
  by code_simp+

lemma time_now_frame: "calls (snd (time_now clock w)) = calls w"
  "fst (time_now clock w) = clock (reads w)" "reads (snd (time_now clock w)) = Suc (reads w)"
  by (simp_all add: time_now_def)

lemma validate_ok: "\<not> is_blank c \<Longrightarrow> validate_required k (Some c) = Inr c"
  by (simp add: validate_required_def)

lemma given_id: "i \<noteq> [] \<Longrightarrow> get_instagram_user_id p (Some i) w = (Inr (JStr i), w)"
  by (simp add: get_instagram_user_id_def given_def arg_def)

text \<open>The fixed-attempts poller on the script IN_PROGRESS, IN_PROGRESS, FINISHED.\<close>

lemma create_post_three_then_publish:
  assumes "\<not> is_blank c" "i \<noteq> []" "calls w = []"
  shows "map snd (calls (snd (create_post
            (scripted [status_answer ''IN_PROGRESS'', status_answer ''IN_PROGRESS'',
                       status_answer ''FINISHED''] later other)
            (Some c) v (Some i) w)))
         = [GetStatus c, GetStatus c, GetStatus c, PostPublish (JStr i) c]"
proof -
  let ?p = "scripted [status_answer ''IN_PROGRESS'', status_answer ''IN_PROGRESS'',
                       status_answer ''FINISHED''] later other"
  obtain v1 w1 where s1: "with_version v (make_api_request ?p (GetStatus c)) w
        = (?p (calls w) (v1, GetStatus c), w1)" "calls w1 = calls w @ [(v1, GetStatus c)]"
    by (rule request_step[of v ?p "GetStatus c" w]) 
  let ?w1 = "slept 3 w1"
  obtain v2 w2 where s2: "with_version v (make_api_request ?p (GetStatus c)) ?w1
        = (?p (calls ?w1) (v2, GetStatus c), w2)" "calls w2 = calls ?w1 @ [(v2, GetStatus c)]"
    by (rule request_step[of v ?p "GetStatus c" ?w1])
  let ?w2 = "slept (min (fl (3 * (3 / 2))) 10) w2"
  obtain v3 w3 where s3: "with_version v (make_api_request ?p (GetStatus c)) ?w2
        = (?p (calls ?w2) (v3, GetStatus c), w3)" "calls w3 = calls ?w2 @ [(v3, GetStatus c)]"
    by (rule request_step[of v ?p "GetStatus c" ?w2])
  obtain v4 w4 where s4: "with_version v (make_api_request ?p (PostPublish (JStr i) c)) w3
        = (?p (calls w3) (v4, PostPublish (JStr i) c), w4)"
        "calls w4 = calls w3 @ [(v4, PostPublish (JStr i) c)]"
    by (rule request_step[of v ?p "PostPublish (JStr i) c" w3])
  have a1: "?p (calls w) (v1, GetStatus c) = status_answer ''IN_PROGRESS''"
    using assms(3) by (simp add: scripted_status)
  have a2: "?p (calls ?w1) (v2, GetStatus c) = status_answer ''IN_PROGRESS''"
    using assms(3) s1(2) by (simp add: scripted_status sleep_frame)
  have a3: "?p (calls ?w2) (v3, GetStatus c) = status_answer ''FINISHED''"
    using assms(3) s1(2) s2(2) by (simp add: scripted_status sleep_frame)
  have n15: "(15::nat) = Suc (Suc (Suc 12))" by simp
  have poll: "create_post_poll ?p v c 3 15 w = (Inr None, w3)"
  proof -
    have q3: "create_post_poll ?p v c (27 / 4) (Suc 12) ?w2 = (Inr None, w3)"
      by (subst create_post_poll_step[OF _ a3 s3(1)]) simp_all
    have q2: "create_post_poll ?p v c (9 / 2) (Suc (Suc 12)) ?w1 = (Inr None, w3)"
      by (subst create_post_poll_step[OF _ a2 s2(1)]) (use q3 in \<open>simp_all add: fl_delays\<close>)
    show ?thesis
      unfolding n15
      by (subst create_post_poll_step[OF _ a1 s1(1)]) (use q2 in \<open>simp_all add: fl_delays\<close>)
  qed
  show ?thesis
    using poll s4 s3(2) s2(2) s1(2) assms
    by (cases "?p (calls w3) (v4, PostPublish (JStr i) c)")
       (simp_all add: create_post_def validate_ok given_id seq_def sleep_frame)
qed


lemma create_post_error:
  assumes "\<not> is_blank c" "i \<noteq> []" "calls w = []"
  shows "map snd (calls (snd (create_post (scripted [status_answer ''ERROR''] later other)
            (Some c) v (Some i) w))) = [GetStatus c]
         \<and> fst (create_post (scripted [status_answer ''ERROR''] later other)
            (Some c) v (Some i) w) = failure ''Media container processing failed''"
proof -
  let ?p = "scripted [status_answer ''ERROR''] later other"
  obtain v1 w1 where s1: "with_version v (make_api_request ?p (GetStatus c)) w
        = (?p (calls w) (v1, GetStatus c), w1)" "calls w1 = calls w @ [(v1, GetStatus c)]"
    by (rule request_step[of v ?p "GetStatus c" w])
  have a1: "?p (calls w) (v1, GetStatus c) = status_answer ''ERROR''"
    using assms(3) by (simp add: scripted_status)
  have n15: "(15::nat) = Suc 14" by simp
  have poll: "create_post_poll ?p v c 3 15 w
                = (Inr (Some (failure ''Media container processing failed'')), w1)"
    unfolding n15 by (subst create_post_poll_step[OF _ a1 s1(1)]) simp_all
  show ?thesis
    using poll s1(2) assms
    by (simp add: create_post_def validate_ok given_id seq_def)
qed

text \<open>The wall-clock poller with its default budget (45 seconds, every 3 seconds).\<close>

lemma publish_defaults:
  "min (int_or None 45) 45 = 45" "int_or None 3 = 3" "nat (45 div (3::int)) = 15"
  by (simp_all add: int_or_def)

lemma post_publish_three_then_final:
  assumes "\<not> is_blank c" "i \<noteq> []" "calls w = []"
      and "fl (clock (reads w + 1) - clock (reads w)) < 45"
      and "fl (clock (reads w + 2) - clock (reads w)) < 45"
      and "fl (clock (reads w + 3) - clock (reads w)) < 45"
  shows "map snd (calls (snd (post_ig_user_media_publish
            (scripted [status_answer ''IN_PROGRESS'', status_answer ''IN_PROGRESS'',
                       status_answer ''FINISHED''] (status_answer s) other)
            clock (Some c) None None v (Some i) w)))
         = [GetStatus c, GetStatus c, GetStatus c, GetStatus c]
           @ (if s = ''FINISHED'' then [PostPublish (JStr i) c] else [])"
proof -
  let ?p = "scripted [status_answer ''IN_PROGRESS'', status_answer ''IN_PROGRESS'',
                       status_answer ''FINISHED''] (status_answer s) other"
  let ?st = "clock (reads w)"
  obtain wa where ta: "time_now clock w = (?st, wa)" "calls wa = calls w" "reads wa = Suc (reads w)"
    by (simp add: time_now_def)
  obtain t1 wb where t1: "time_now clock wa = (t1, wb)" "calls wb = calls wa"
       "reads wb = Suc (reads wa)" "t1 = clock (reads wa)"
    by (simp add: time_now_def)
  obtain v1 w1 where s1: "with_version v (make_api_request ?p (GetStatus c)) wb
        = (?p (calls wb) (v1, GetStatus c), w1)" "calls w1 = calls wb @ [(v1, GetStatus c)]"
        "reads w1 = reads wb"
    by (rule request_step[of v ?p "GetStatus c" wb])
  let ?w1 = "slept (of_int 3) w1"
  obtain t2 wc where t2: "time_now clock ?w1 = (t2, wc)" "calls wc = calls ?w1"
       "reads wc = Suc (reads ?w1)" "t2 = clock (reads ?w1)"
    by (simp add: time_now_def)
  obtain v2 w2 where s2: "with_version v (make_api_request ?p (GetStatus c)) wc
        = (?p (calls wc) (v2, GetStatus c), w2)" "calls w2 = calls wc @ [(v2, GetStatus c)]"
        "reads w2 = reads wc"
    by (rule request_step[of v ?p "GetStatus c" wc])
  let ?w2 = "slept (of_int 3) w2"
  obtain t3 wd where t3: "time_now clock ?w2 = (t3, wd)" "calls wd = calls ?w2"
       "reads wd = Suc (reads ?w2)" "t3 = clock (reads ?w2)"
    by (simp add: time_now_def)
  obtain v3 w3 where s3: "with_version v (make_api_request ?p (GetStatus c)) wd
        = (?p (calls wd) (v3, GetStatus c), w3)" "calls w3 = calls wd @ [(v3, GetStatus c)]"
        "reads w3 = reads wd"
    by (rule request_step[of v ?p "GetStatus c" wd])
  obtain v4 w4 where s4: "with_version v (make_api_request ?p (GetStatus c)) w3
        = (?p (calls w3) (v4, GetStatus c), w4)" "calls w4 = calls w3 @ [(v4, GetStatus c)]"
    by (rule request_step[of v ?p "GetStatus c" w3])
  obtain v5 w5 where s5: "with_version v (make_api_request ?p (PostPublish (JStr i) c)) w4
        = (?p (calls w4) (v5, PostPublish (JStr i) c), w5)"
        "calls w5 = calls w4 @ [(v5, PostPublish (JStr i) c)]"
    by (rule request_step[of v ?p "PostPublish (JStr i) c" w4])
  have c1: "calls w1 = [(v1, GetStatus c)]"
    using assms(3) ta t1 s1 by simp
  have c2: "calls w2 = [(v1, GetStatus c), (v2, GetStatus c)]"
    using c1 t2 s2 by (simp add: sleep_frame)
  have c3: "calls w3 = [(v1, GetStatus c), (v2, GetStatus c), (v3, GetStatus c)]"
    using c2 t3 s3 by (simp add: sleep_frame)
  have a1: "?p (calls wb) (v1, GetStatus c) = status_answer ''IN_PROGRESS''"
    using assms(3) ta t1 by (simp add: scripted_status)
  have a2: "?p (calls wc) (v2, GetStatus c) = status_answer ''IN_PROGRESS''"
    using c1 t2 by (simp add: scripted_status sleep_frame)
  have a3: "?p (calls wd) (v3, GetStatus c) = status_answer ''FINISHED''"
    using c2 t3 by (simp add: scripted_status sleep_frame)
  have a4: "?p (calls w3) (v4, GetStatus c) = status_answer s"
    using c3 by (simp add: scripted_status)
  have e1: "\<not> fl (t1 - ?st) \<ge> of_int 45"
    using assms(4) t1(4) ta(3) by simp
  have e2: "\<not> fl (t2 - ?st) \<ge> of_int 45"
    using assms(5) t2(4) s1(3) t1(3) ta(3) by (simp add: sleep_frame)
  have e3: "\<not> fl (t3 - ?st) \<ge> of_int 45"
    using assms(6) t3(4) s2(3) t2(3) s1(3) t1(3) ta(3)
    by (simp add: sleep_frame eval_nat_numeral)
  have n15: "(15::nat) = Suc (Suc (Suc 12))" by simp
  have p3: "publish_poll ?p clock v c 45 3 ?st (Suc 12) ?w2 = (Inr None, w3)"
    by (subst publish_poll_step[OF _ a3 t3(1) s3(1)]) (use e3 in simp_all)
  have p2: "publish_poll ?p clock v c 45 3 ?st (Suc (Suc 12)) ?w1 = (Inr None, w3)"
    by (subst publish_poll_step[OF _ a2 t2(1) s2(1)]) (use e2 p3 in simp_all)
  have poll: "publish_poll ?p clock v c 45 3 ?st 15 wa = (Inr None, w3)"
    unfolding n15
    by (subst publish_poll_step[OF _ a1 t1(1) s1(1)]) (use e1 p2 in simp_all)
  have final: "map snd (calls (snd (final_check_and_publish ?p v (JStr i) c w3)))
         = [GetStatus c, GetStatus c, GetStatus c, GetStatus c]
           @ (if s = ''FINISHED'' then [PostPublish (JStr i) c] else [])"
  proof -
    have f1: "with_version v (make_api_request ?p (GetStatus c)) w3
                = (Inr (JObj [(''status_code'', JStr s)]), w4)"
      using s4(1) a4 by (simp add: status_answer_def)
    have c4: "map snd (calls w4) = [GetStatus c, GetStatus c, GetStatus c, GetStatus c]"
      using s4(2) c3 by simp
    show ?thesis
    proof (cases "s = ''FINISHED''")
      case False
      then show ?thesis
        using f1 c4 by (simp add: final_check_and_publish_def seq_def)
    next
      case True
      have "snd (seq (with_version v (make_api_request ?p (PostPublish (JStr i) c)) w4)
                   (\<lambda>result w2. (Inr (success result), w2))) = w5"
        using s5(1) by (cases "?p (calls w4) (v5, PostPublish (JStr i) c)") (simp_all add: seq_def)
      then show ?thesis
        using True f1 c4 s5(2) by (simp add: final_check_and_publish_def seq_def)
    qed
  qed
  show ?thesis
    using poll final ta assms(1,2)
    by (cases "final_check_and_publish ?p v (JStr i) c w3";
        cases "fst (final_check_and_publish ?p v (JStr i) c w3)")
       (simp_all add: post_ig_user_media_publish_def validate_ok given_id seq_def
          publish_defaults Let_def)
qed


lemma post_publish_error:
  assumes "\<not> is_blank c" "i \<noteq> []" "calls w = []"
      and "fl (clock (reads w + 1) - clock (reads w)) < 45"
  shows "map snd (calls (snd (post_ig_user_media_publish
            (scripted [status_answer ''ERROR''] later other)
            clock (Some c) None None v (Some i) w))) = [GetStatus c]
         \<and> fst (post_ig_user_media_publish (scripted [status_answer ''ERROR''] later other)
            clock (Some c) None None v (Some i) w) = container_error"
proof -
  let ?p = "scripted [status_answer ''ERROR''] later other"
  let ?st = "clock (reads w)"
  obtain wa where ta: "time_now clock w = (?st, wa)" "calls wa = calls w" "reads wa = Suc (reads w)"
    by (simp add: time_now_def)
  obtain t1 wb where t1: "time_now clock wa = (t1, wb)" "calls wb = calls wa"
       "reads wb = Suc (reads wa)" "t1 = clock (reads wa)"
    by (simp add: time_now_def)
  obtain v1 w1 where s1: "with_version v (make_api_request ?p (GetStatus c)) wb
        = (?p (calls wb) (v1, GetStatus c), w1)" "calls w1 = calls wb @ [(v1, GetStatus c)]"
    by (rule request_step[of v ?p "GetStatus c" wb])
  have a1: "?p (calls wb) (v1, GetStatus c) = status_answer ''ERROR''"
    using assms(3) ta t1 by (simp add: scripted_status)
  have e1: "\<not> fl (t1 - ?st) \<ge> of_int 45"
    using assms(4) t1(4) ta(3) by simp
  have n15: "(15::nat) = Suc 14" by simp
  have poll: "publish_poll ?p clock v c 45 3 ?st 15 wa = (Inr (Some container_error), w1)"
    unfolding n15
    by (subst publish_poll_step[OF _ a1 t1(1) s1(1)]) (use e1 in simp_all)
  show ?thesis
    using poll ta s1(2) t1(2) assms(1,2,3)
    by (simp add: post_ig_user_media_publish_def validate_ok given_id seq_def
          publish_defaults Let_def)
qed

lemma not_blank_digits: "\<not> is_blank ''123''"
  by (simp add: is_blank_def is_space_def)

text \<open>
  C6. The claim is that on the script IN_PROGRESS, IN_PROGRESS, FINISHED a publish poller makes
  exactly three status calls and then exactly one publish call. The wall-clock poller of the
  server (\<^verbatim>\<open>INSTAGRAM_POST_IG_USER_MEDIA_PUBLISH\<close>) makes four status calls: after the third
  answer ends its loop it asks for the status once more (its final status check) before the
  publish call. Here the container stays FINISHED afterwards and no time passes.
\<close>

theorem wall_clock_poller_four_status_calls:
  "map snd (calls (snd (post_ig_user_media_publish
       (scripted [status_answer ''IN_PROGRESS'', status_answer ''IN_PROGRESS'',
                  status_answer ''FINISHED''] (status_answer ''FINISHED'') (Inr (JObj [])))
       stopped_clock (Some ''123'') None None None (Some ''178'') idle)))
     = [GetStatus ''123'', GetStatus ''123'', GetStatus ''123'', GetStatus ''123'',
        PostPublish (JStr ''178'') ''123'']
   \<and> status_calls (snd (post_ig_user_media_publish
       (scripted [status_answer ''IN_PROGRESS'', status_answer ''IN_PROGRESS'',
                  status_answer ''FINISHED''] (status_answer ''FINISHED'') (Inr (JObj [])))
       stopped_clock (Some ''123'') None None None (Some ''178'') idle)) = 4
   \<and> publish_calls (snd (post_ig_user_media_publish
       (scripted [status_answer ''IN_PROGRESS'', status_answer ''IN_PROGRESS'',
                  status_answer ''FINISHED''] (status_answer ''FINISHED'') (Inr (JObj [])))
       stopped_clock (Some ''123'') None None None (Some ''178'') idle)) = 1"
proof -
  have c: "calls idle = []" by (simp add: idle_def)
  have m: "status_calls w = length (filter (\<lambda>r. case r of GetStatus c \<Rightarrow> True | _ \<Rightarrow> False)
                                    (map snd (calls w)))"
          "publish_calls w = length (filter (\<lambda>r. case r of PostPublish i c \<Rightarrow> True | _ \<Rightarrow> False)
                                    (map snd (calls w)))" for w
  proof -
    have "is_status_call = (\<lambda>r. case r of GetStatus c \<Rightarrow> True | _ \<Rightarrow> False) \<circ> snd"
      by (rule ext) (auto split: api_req.splits)
    then show "status_calls w = length (filter (\<lambda>r. case r of GetStatus c \<Rightarrow> True | _ \<Rightarrow> False)
                                    (map snd (calls w)))"
      by (simp add: status_calls_def filter_map)
    have "is_publish_call = (\<lambda>r. case r of PostPublish i c \<Rightarrow> True | _ \<Rightarrow> False) \<circ> snd"
      by (rule ext) (auto split: api_req.splits)
    then show "publish_calls w = length (filter (\<lambda>r. case r of PostPublish i c \<Rightarrow> True | _ \<Rightarrow> False)
                                    (map snd (calls w)))"
      by (simp add: publish_calls_def filter_map)
  qed
  show ?thesis
    unfolding m
    using post_publish_three_then_final[OF not_blank_digits _ c, of "''178''" stopped_clock
            "''FINISHED''" "Inr (JObj [])" None]
    by (simp add: stopped_clock_def fl_delays)
qed

section \<open>The result envelope\<close>




















end
